theory Spec2Isabelle
  imports Complex_Main
begin

section \<open>Data model (models/types.ts)\<close>

text \<open>
  The TypeScript interfaces become records. A JavaScript \<open>number\<close> that holds a
  question id or a score is an \<open>int\<close> (a number that is not an integer never equals
  a question id, so it behaves like an integer outside the fixed set).
\<close>

text \<open>
  A property lookup \<open>obj[key]\<close> on an object literal finds the literal's own keys
  and, for every other key, the properties that the literal inherits from
  \<open>Object.prototype\<close>: built-in functions, and \<open>Object.prototype\<close> itself under
  \<open>__proto__\<close>. All of them are truthy and none has a method \<open>includes\<close>.
\<close>

definition objectPrototypeKeys :: "string list" where
  "objectPrototypeKeys =
     [''constructor'', ''__defineGetter__'', ''__defineSetter__'', ''hasOwnProperty'',
      ''__lookupGetter__'', ''__lookupSetter__'', ''isPrototypeOf'', ''propertyIsEnumerable'',
      ''toString'', ''valueOf'', ''__proto__'', ''toLocaleString'']"

datatype 'a property = Own 'a | Inherited string | Undefined

definition getProperty :: "(string \<times> 'a) list \<Rightarrow> string \<Rightarrow> 'a property" where
  "getProperty obj key =
     (case map_of obj key of
        Some v \<Rightarrow> Own v
      | None \<Rightarrow> if key \<in> set objectPrototypeKeys then Inherited key else Undefined)"

record quiz_answer =
  questionId :: int
  answer :: string

record quiz_question =
  id_q :: int
  text_q :: string
  category :: string
  options :: "string list"

datatype action = Delivery | Dineout | Cook

text \<open>
  What \<open>room.chosenAction\<close> can hold at run time: one of the three action strings,
  or the inherited property that \<open>ACTION_MAP[text]\<close> returned for a text that names
  one.
\<close>

datatype chosen = Action action | InheritedValue string

record question_match =
  questionId_m :: int
  partner1Answer :: string
  partner2Answer :: string
  score :: int

record recommendation =
  type_r :: action
  title :: string
  description :: string
  matchedPreferences :: "string list"

record match_result =
  compatibility :: int
  breakdown :: "question_match list"
  recommendations :: "recommendation list"

record partner =
  userId :: string
  name :: string
  phone :: string
  quizAnswers :: "quiz_answer list"
  quizComplete :: bool

record room =
  roomId :: string
  partner1 :: partner
  partner2 :: "partner option"
  matchResult :: "match_result option"
  sessionId :: string
  createdAt :: nat
  chosenAction :: "chosen option"
  chosenBy :: "string option"

text \<open>The rupee sign of the budget options, as its UTF-8 bytes.\<close>

definition rupee :: string where
  "rupee = [CHR 0xE2, CHR 0x82, CHR 0xB9]"

definition QUIZ_QUESTIONS :: "quiz_question list" where
  "QUIZ_QUESTIONS =
    [\<lparr>id_q = 1, text_q = ''What's your go-to cuisine?'', category = ''cuisine'',
      options = [''North Indian'', ''South Indian'', ''Chinese'', ''Italian'',
                 ''Continental'', ''Street Food'', ''Other'']\<rparr>,
     \<lparr>id_q = 2, text_q = ''How spicy do you like it?'', category = ''spice'',
      options = [''Mild'', ''Medium'', ''Spicy'', ''Extra Spicy'']\<rparr>,
     \<lparr>id_q = 3, text_q = ''Any dietary preferences?'', category = ''diet'',
      options = [''Veg'', ''Non-Veg'', ''Egg only'', ''Vegan'']\<rparr>,
     \<lparr>id_q = 4, text_q = ''What's your ideal dinner budget per person?'',
      category = ''budget'',
      options = [rupee @ ''200-400'', rupee @ ''400-700'', rupee @ ''700-1200'',
                 rupee @ ''1200+'']\<rparr>,
     \<lparr>id_q = 5, text_q = ''What vibe are you feeling tonight?'', category = ''mood'',
      options = [''Cozy & Romantic'', ''Fun & Casual'', ''Fine Dining'', ''Home-cooked'']\<rparr>,
     \<lparr>id_q = 6, text_q = ''Pick your ideal Valentine's dish type'',
      category = ''dish_type'',
      options = [''Biriyani/Rice'', ''Pizza/Pasta'', ''Curry & Bread'', ''Sushi/Asian'',
                 ''Dessert-heavy'', ''Healthy/Salad'']\<rparr>]"

section \<open>QuizService (services/quiz.ts)\<close>

definition getNextQuestion :: "quiz_answer list \<Rightarrow> quiz_question option" where
  "getNextQuestion answers =
     (let answeredIds = set (map questionId answers)
      in find (\<lambda>q. id_q q \<notin> answeredIds) QUIZ_QUESTIONS)"

text \<open>
  \<open>submitAnswer\<close> returns \<open>{success: false, error}\<close> with one of two messages, or
  \<open>{success: true}\<close> after pushing onto the caller's array. The model returns the
  result together with the array as the call leaves it.
\<close>

datatype submit_error =
    InvalidQuestionID int    \<comment> \<open>\<open>Invalid question ID: n\<close>\<close>
  | AlreadyAnswered int      \<comment> \<open>\<open>Question n already answered\<close>\<close>

definition submitAnswer ::
  "quiz_answer list \<Rightarrow> int \<Rightarrow> string \<Rightarrow> (submit_error + unit) \<times> quiz_answer list" where
  "submitAnswer answers qid ans =
     (case find (\<lambda>q. id_q q = qid) QUIZ_QUESTIONS of
        None \<Rightarrow> (Inl (InvalidQuestionID qid), answers)
      | Some question \<Rightarrow>
          if list_ex (\<lambda>a. questionId a = qid) answers
          then (Inl (AlreadyAnswered qid), answers)
          else (Inr (), answers @ [\<lparr>questionId = qid, answer = ans\<rparr>]))"

definition isComplete :: "quiz_answer list \<Rightarrow> bool" where
  "isComplete answers = (length answers \<ge> length QUIZ_QUESTIONS)"

text \<open>
  A sequence of submit calls on one array, all of which must succeed: the array after
  the last call, or \<open>None\<close> as soon as one call is refused.
\<close>

fun submitAll :: "quiz_answer list \<Rightarrow> (int \<times> string) list \<Rightarrow> quiz_answer list option" where
  "submitAll answers [] = Some answers"
| "submitAll answers ((qid, ans) # calls) =
     (case submitAnswer answers qid ans of
        (Inl e, _) \<Rightarrow> None
      | (Inr u, answers') \<Rightarrow> submitAll answers' calls)"

section \<open>RoomService (services/room.ts)\<close>

type_synonym room_store = "string \<Rightarrow> room option"

datatype join_error =
    RoomNotFound     \<comment> \<open>\<open>Room not found\<close>\<close>
  | RoomIsFull       \<comment> \<open>\<open>Room is full\<close>\<close>
  | AlreadyInRoom    \<comment> \<open>\<open>You are already in this room\<close>\<close>

text \<open>
  \<open>createRoom\<close> draws the room id from \<open>uuidv4().slice(0, 8)\<close> and the creation
  time from the clock; both are arguments of the model.
\<close>

definition createRoom ::
  "room_store \<Rightarrow> string \<Rightarrow> nat \<Rightarrow> string \<Rightarrow> string \<Rightarrow> string \<Rightarrow> room \<times> room_store" where
  "createRoom rooms rid now uid nm ph =
     (let r = \<lparr>roomId = rid,
                partner1 = \<lparr>userId = uid, name = nm, phone = ph,
                             quizAnswers = [], quizComplete = False\<rparr>,
                partner2 = None, matchResult = None,
                sessionId = ''session_'' @ rid, createdAt = now,
                chosenAction = None, chosenBy = None\<rparr>
      in (r, rooms(rid \<mapsto> r)))"

definition joinRoom ::
  "room_store \<Rightarrow> string \<Rightarrow> string \<Rightarrow> string \<Rightarrow> string \<Rightarrow> (join_error + room) \<times> room_store" where
  "joinRoom rooms rid uid nm ph =
     (case rooms rid of
        None \<Rightarrow> (Inl RoomNotFound, rooms)
      | Some r \<Rightarrow>
          if partner2 r \<noteq> None then (Inl RoomIsFull, rooms)
          else if userId (partner1 r) = uid then (Inl AlreadyInRoom, rooms)
          else
            (let r' = r\<lparr>partner2 := Some \<lparr>userId = uid, name = nm, phone = ph,
                                             quizAnswers = [], quizComplete = False\<rparr>\<rparr>
             in (Inr r', rooms(rid \<mapsto> r'))))"

definition getRoom :: "room_store \<Rightarrow> string \<Rightarrow> room option" where
  "getRoom rooms rid = rooms rid"

text \<open>Which slot of the room a user occupies (the object \<open>getPartner\<close> returns).\<close>

datatype slot = P1 | P2

definition getPartnerSlot :: "room \<Rightarrow> string \<Rightarrow> slot option" where
  "getPartnerSlot r uid =
     (if userId (partner1 r) = uid then Some P1
      else case partner2 r of
             None \<Rightarrow> None
           | Some p2 \<Rightarrow> if userId p2 = uid then Some P2 else None)"

definition getPartner :: "room \<Rightarrow> string \<Rightarrow> partner option" where
  "getPartner r uid =
     (case getPartnerSlot r uid of
        None \<Rightarrow> None
      | Some P1 \<Rightarrow> Some (partner1 r)
      | Some P2 \<Rightarrow> partner2 r)"

definition setPartner :: "room \<Rightarrow> slot \<Rightarrow> partner \<Rightarrow> room" where
  "setPartner r sl p = (case sl of P1 \<Rightarrow> r\<lparr>partner1 := p\<rparr> | P2 \<Rightarrow> r\<lparr>partner2 := Some p\<rparr>)"

definition isUserInRoom :: "room \<Rightarrow> string \<Rightarrow> bool" where
  "isUserInRoom r uid =
     (userId (partner1 r) = uid \<or>
      (case partner2 r of None \<Rightarrow> False | Some p2 \<Rightarrow> userId p2 = uid))"

section \<open>Scoring (agent/tools/matching.ts)\<close>

definition COMPATIBILITY_MAPS :: "(string \<times> (string \<times> string list) list) list" where
  "COMPATIBILITY_MAPS =
    [(''cuisine'',
        [(''North Indian'', [''Street Food'', ''South Indian'']),
         (''South Indian'', [''North Indian'', ''Street Food'']),
         (''Chinese'', [''Italian'', ''Sushi/Asian'']),
         (''Italian'', [''Continental'', ''Chinese'']),
         (''Continental'', [''Italian'', ''Fine Dining'']),
         (''Street Food'', [''North Indian'', ''South Indian''])]),
     (''spice'',
        [(''Mild'', [''Medium'']),
         (''Medium'', [''Mild'', ''Spicy'']),
         (''Spicy'', [''Medium'', ''Extra Spicy'']),
         (''Extra Spicy'', [''Spicy''])]),
     (''diet'',
        [(''Veg'', [''Vegan'', ''Egg only'']),
         (''Non-Veg'', [''Egg only'']),
         (''Egg only'', [''Veg'', ''Non-Veg'']),
         (''Vegan'', [''Veg''])]),
     (''budget'',
        [(rupee @ ''200-400'', [rupee @ ''400-700'']),
         (rupee @ ''400-700'', [rupee @ ''200-400'', rupee @ ''700-1200'']),
         (rupee @ ''700-1200'', [rupee @ ''400-700'', rupee @ ''1200+'']),
         (rupee @ ''1200+'', [rupee @ ''700-1200''])]),
     (''mood'',
        [(''Cozy & Romantic'', [''Fine Dining'']),
         (''Fun & Casual'', [''Home-cooked'']),
         (''Fine Dining'', [''Cozy & Romantic'']),
         (''Home-cooked'', [''Fun & Casual'', ''Cozy & Romantic''])]),
     (''dish_type'',
        [(''Biriyani/Rice'', [''Curry & Bread'']),
         (''Pizza/Pasta'', [''Sushi/Asian'']),
         (''Curry & Bread'', [''Biriyani/Rice'']),
         (''Sushi/Asian'', [''Pizza/Pasta'', ''Healthy/Salad'']),
         (''Dessert-heavy'', [''Pizza/Pasta'']),
         (''Healthy/Salad'', [''Sushi/Asian''])])]"

text \<open>
  What a call can throw. \<open>calculateQuestionScore\<close> evaluates
  \<open>COMPATIBILITY_MAPS[category]?.[answer1] ?? []\<close> and calls \<open>includes\<close> on the
  result. For an answer that names an inherited property the result is a built-in
  function or object, and the call of \<open>includes\<close> throws a \<open>TypeError\<close>. For a
  category that names an inherited property the second lookup would go on in a built-in
  object; the function is private to its module and its only caller passes the categories
  of \<open>QUIZ_QUESTIONS\<close>, which are own keys, so the model only marks that case.
\<close>

datatype thrown =
    TypeError string
  | BuiltinCategory string

definition calculateQuestionScore :: "string \<Rightarrow> string \<Rightarrow> string \<Rightarrow> thrown + int" where
  "calculateQuestionScore cat answer1 answer2 =
     (if answer1 = answer2 then Inr 100
      else case getProperty COMPATIBILITY_MAPS cat of
             Undefined \<Rightarrow> Inr 20
           | Inherited k \<Rightarrow> Inl (BuiltinCategory k)
           | Own table \<Rightarrow>
               (case getProperty table answer1 of
                  Undefined \<Rightarrow> Inr 20
                | Inherited k \<Rightarrow> Inl (TypeError ''compatibles.includes is not a function'')
                | Own compatibles \<Rightarrow> Inr (if answer2 \<in> set compatibles then 60 else 20)))"

text \<open>
  \<open>Math.round\<close> rounds to the nearest integer, halves upwards. The quotient it is
  applied to is a multiple of 20 divided by 6, so it is an integer or ends in one or two
  thirds: the rounding error of the double arithmetic never reaches a half, and the
  exact value gives the same integer.
\<close>

definition Math_round :: "real \<Rightarrow> int" where
  "Math_round x = \<lfloor>x + 1 / 2\<rfloor>"

text \<open>
  The loop over \<open>QUIZ_QUESTIONS\<close> of \<open>calculate_match\<close>: the accumulators are
  \<open>totalScore\<close> and \<open>breakdown\<close>; a question one side has not answered is skipped,
  and a throwing score ends the loop.
\<close>

fun scoreLoop ::
  "quiz_question list \<Rightarrow> quiz_answer list \<Rightarrow> quiz_answer list \<Rightarrow>
   int \<times> question_match list \<Rightarrow> thrown + int \<times> question_match list" where
  "scoreLoop [] a1 a2 acc = Inr acc"
| "scoreLoop (question # qs) a1 a2 (totalScore, bd) =
     (case find (\<lambda>a. questionId a = id_q question) a1 of
        None \<Rightarrow> scoreLoop qs a1 a2 (totalScore, bd)
      | Some p1Answer \<Rightarrow>
          (case find (\<lambda>a. questionId a = id_q question) a2 of
             None \<Rightarrow> scoreLoop qs a1 a2 (totalScore, bd)
           | Some p2Answer \<Rightarrow>
               (case calculateQuestionScore (category question)
                       (answer p1Answer) (answer p2Answer) of
                  Inl e \<Rightarrow> Inl e
                | Inr sc \<Rightarrow>
                    scoreLoop qs a1 a2
                      (totalScore + sc,
                       bd @ [\<lparr>questionId_m = id_q question,
                               partner1Answer = answer p1Answer,
                               partner2Answer = answer p2Answer,
                               score = sc\<rparr>]))))"

definition sharedPreference :: "question_match \<Rightarrow> string list" where
  "sharedPreference m =
     (if score m \<ge> 60 then
        (if score m = 100 then [''Both love '' @ partner1Answer m]
         else [partner1Answer m @ '' & '' @ partner2Answer m @ '' ('' @
               (case find (\<lambda>q. id_q q = questionId_m m) QUIZ_QUESTIONS of
                  None \<Rightarrow> ''undefined'' | Some q \<Rightarrow> category q) @ '')''])
      else [])"

definition buildRecommendations :: "string list \<Rightarrow> recommendation list" where
  "buildRecommendations sharedPreferences =
     [\<lparr>type_r = Delivery, title = ''Order In Together'',
       description = ''Order a romantic dinner for two from Swiggy!'',
       matchedPreferences = sharedPreferences\<rparr>,
      \<lparr>type_r = Dineout, title = ''Dine Out Date Night'',
       description = ''Book a table at a restaurant that matches your combined tastes!'',
       matchedPreferences = sharedPreferences\<rparr>,
      \<lparr>type_r = Cook, title = ''Cook Together at Home'',
       description = ''Get ingredients from Swiggy Instamart and cook a romantic meal!'',
       matchedPreferences = sharedPreferences\<rparr>]"

text \<open>The match of two answer arrays: the \<open>MatchResult\<close> the tool stores.\<close>

definition computeMatch :: "quiz_answer list \<Rightarrow> quiz_answer list \<Rightarrow> thrown + match_result" where
  "computeMatch a1 a2 =
     (case scoreLoop QUIZ_QUESTIONS a1 a2 (0, []) of
        Inl e \<Rightarrow> Inl e
      | Inr (totalScore, bd) \<Rightarrow>
          (let maxScore = int (length QUIZ_QUESTIONS) * 100;
               pct = Math_round ((real_of_int totalScore / real_of_int maxScore) * 100);
               sharedPreferences = concat (map sharedPreference bd)
           in Inr \<lparr>compatibility = pct, breakdown = bd,
                   recommendations = buildRecommendations sharedPreferences\<rparr>))"

datatype match_error =
    MatchRoomNotFound      \<comment> \<open>\<open>Room not found\<close>\<close>
  | Partner2NotJoined      \<comment> \<open>\<open>Partner 2 has not joined yet\<close>\<close>
  | QuizNotComplete        \<comment> \<open>\<open>Both partners must complete the quiz first\<close>\<close>

text \<open>
  \<open>calculateMatchTool.execute\<close> for the room of the current context: it returns an
  error object (the two operands of the test of the completion flags are evaluated in
  order), or throws while scoring (before it writes to the room), or stores the result
  on the room and returns a reply. The reply carries the compatibility and a
  breakdown derived from the stored one; the model returns the stored \<open>MatchResult\<close>
  as the reply.
\<close>

datatype match_outcome =
    Threw thrown
  | ReturnedError match_error
  | Returned match_result

definition calculateMatch :: "room_store \<Rightarrow> string \<Rightarrow> match_outcome \<times> room_store" where
  "calculateMatch rooms rid =
     (case getRoom rooms rid of
        None \<Rightarrow> (ReturnedError MatchRoomNotFound, rooms)
      | Some r \<Rightarrow>
          (case partner2 r of
             None \<Rightarrow> (ReturnedError Partner2NotJoined, rooms)
           | Some p2 \<Rightarrow>
               if \<not> quizComplete (partner1 r) then (ReturnedError QuizNotComplete, rooms)
               else if \<not> quizComplete p2 then (ReturnedError QuizNotComplete, rooms)
               else
                 (case computeMatch (quizAnswers (partner1 r)) (quizAnswers p2) of
                    Inl e \<Rightarrow> (Threw e, rooms)
                  | Inr m \<Rightarrow> (Returned m, rooms(rid \<mapsto> r\<lparr>matchResult := Some m\<rparr>)))))"

section \<open>The WebSocket server (server/websocket.ts)\<close>

text \<open>
  The module state of the server, the agent's tool array (agent/agent.ts) and the token
  store (auth/swiggy-oauth.ts) form one record. A WebSocket object is a number (its
  identity); what the server writes to sockets is kept in \<open>sent\<close>, one entry per
  call of a send function (a broadcast to a room without a connection list returns
  before sending and leaves no entry), with the sockets of the room it addresses; a
  registered socket is taken to be open. An asynchronous function runs without
  interruption up to its next \<open>await\<close>; what it does after the \<open>await\<close> is a
  task of \<open>tasks\<close>, resumed by a later event that carries what the awaited operation
  returned.
\<close>

type_synonym ws = nat

datatype ws_message =
    AgentMessage string
  | PersonalizedReveal string string int
  | PartnerJoined string
  | QuizUpdate bool bool
  | MatchResultMsg int "recommendation list"
  | ActionChosen chosen string
  | SwiggyAuthRequired string
  | SwiggyAuthComplete
  | ErrorMsg string

datatype send =
    SendToClient ws ws_message
  | BroadcastToRoom string ws_message "ws list"
  | BroadcastToRoomExcept string string ws_message "ws list"
  | SendToUser string string ws_message "ws list"

record tool =
  name_t :: string
  description_t :: string

datatype after_connect = ContinueMessage | ReplayPending

datatype task =
    AwaitAuthUrl string string ws string
  | AwaitConnect string chosen string ws string after_connect
  | AwaitSession string string ws string
  | AgentRun string string ws bool
  | AwaitCalc string ws

record server =
  rooms :: room_store
  roomConnections :: "string \<Rightarrow> (string \<times> ws) list option"
  matchSent :: "string set"
  pendingActions :: "string \<Rightarrow> (string \<times> string \<times> ws) option"
  roomAuthStore :: "string \<Rightarrow> string option"
  agentTools :: "tool list"
  tasks :: "task list"
  sent :: "send list"

definition ACTION_MAP :: "(string \<times> action) list" where
  "ACTION_MAP =
     [(''Let's order in!'', Delivery),
      (''Let's dine out!'', Dineout),
      (''Let's cook together!'', Cook)]"

text \<open>
  \<open>const actionType = ACTION_MAP[text]\<close>, and whether it passes \<open>if (actionType)\<close>:
  an action string is not empty and an inherited property is a function or an object,
  so every value found is truthy.
\<close>

definition actionTypeOf :: "string \<Rightarrow> chosen option" where
  "actionTypeOf txt =
     (case getProperty ACTION_MAP txt of
        Own a \<Rightarrow> Some (Action a)
      | Inherited k \<Rightarrow> Some (InheritedValue k)
      | Undefined \<Rightarrow> None)"

fun ACTION_LABELS :: "action \<Rightarrow> string" where
  "ACTION_LABELS Delivery = ''Order In''"
| "ACTION_LABELS Dineout = ''Dine Out''"
| "ACTION_LABELS Cook = ''Cook Together''"

text \<open>
  \<open>ACTION_LABELS[room.chosenAction]\<close> inside the template of the message. A stored
  function or object is converted to a string that is no key of \<open>ACTION_LABELS\<close>, so
  the label is \<open>undefined\<close> and the template prints that word.
\<close>

fun chosenLabel :: "chosen \<Rightarrow> string" where
  "chosenLabel (Action a) = ACTION_LABELS a"
| "chosenLabel (InheritedValue k) = ''undefined''"

text \<open>The tool array as \<open>createValentineAgent\<close> leaves it: quiz and matching tools.\<close>

definition builtinTools :: "tool list" where
  "builtinTools =
     [\<lparr>name_t = ''start_quiz'', description_t = ''builtin''\<rparr>,
      \<lparr>name_t = ''submit_answer'', description_t = ''builtin''\<rparr>,
      \<lparr>name_t = ''get_quiz_status'', description_t = ''builtin''\<rparr>,
      \<lparr>name_t = ''calculate_match'', description_t = ''builtin''\<rparr>,
      \<lparr>name_t = ''get_recipe'', description_t = ''builtin''\<rparr>]"

definition init :: server where
  "init = \<lparr>rooms = Map.empty, roomConnections = Map.empty, matchSent = {},
           pendingActions = Map.empty, roomAuthStore = Map.empty,
           agentTools = builtinTools, tasks = [], sent = []\<rparr>"

definition hasTokens :: "server \<Rightarrow> string \<Rightarrow> bool" where
  "hasTokens s rid = (roomAuthStore s rid \<noteq> None)"

definition getTokens :: "server \<Rightarrow> string \<Rightarrow> string option" where
  "getTokens s rid = roomAuthStore s rid"

definition sendToClient :: "ws \<Rightarrow> ws_message \<Rightarrow> server \<Rightarrow> server" where
  "sendToClient w m s = s\<lparr>sent := sent s @ [SendToClient w m]\<rparr>"

definition broadcastToRoom :: "string \<Rightarrow> ws_message \<Rightarrow> server \<Rightarrow> server" where
  "broadcastToRoom rid m s =
     (case roomConnections s rid of
        None \<Rightarrow> s
      | Some conns \<Rightarrow> s\<lparr>sent := sent s @ [BroadcastToRoom rid m (map snd conns)]\<rparr>)"

definition broadcastToRoomExcept :: "string \<Rightarrow> string \<Rightarrow> ws_message \<Rightarrow> server \<Rightarrow> server" where
  "broadcastToRoomExcept rid excludeUserId m s =
     (case roomConnections s rid of
        None \<Rightarrow> s
      | Some conns \<Rightarrow>
          s\<lparr>sent := sent s @
             [BroadcastToRoomExcept rid excludeUserId m
                (map snd (filter (\<lambda>c. fst c \<noteq> excludeUserId) conns))]\<rparr>)"

definition sendToUser :: "string \<Rightarrow> string \<Rightarrow> ws_message \<Rightarrow> server \<Rightarrow> server" where
  "sendToUser rid uid m s =
     (case roomConnections s rid of
        None \<Rightarrow> s
      | Some conns \<Rightarrow>
          s\<lparr>sent := sent s @
             [SendToUser rid uid m (map snd (filter (\<lambda>c. fst c = uid) conns))]\<rparr>)"

definition spawn :: "task \<Rightarrow> server \<Rightarrow> server" where
  "spawn t s = s\<lparr>tasks := tasks s @ [t]\<rparr>"

definition finish :: "task \<Rightarrow> server \<Rightarrow> server" where
  "finish t s = s\<lparr>tasks := remove1 t (tasks s)\<rparr>"

text \<open>
  \<open>connectAndInjectTools\<close> up to its \<open>await connectMCP\<close>: without tokens it returns
  at once (\<open>None\<close>: nothing to wait for).
\<close>

definition connectAndInjectTools_begin ::
  "string \<Rightarrow> chosen \<Rightarrow> string \<Rightarrow> ws \<Rightarrow> string \<Rightarrow> after_connect \<Rightarrow> server \<Rightarrow> server option" where
  "connectAndInjectTools_begin rid actionType uid w txt k s =
     (case getTokens s rid of
        None \<Rightarrow> None
      | Some tokens \<Rightarrow> Some (spawn (AwaitConnect rid actionType uid w txt k) s))"

text \<open>
  \<open>connectAndInjectTools\<close> after \<open>connectMCP\<close> returned the wrappers of the
  discovered tools (\<open>Some mcpTools\<close>) or threw (\<open>None\<close>). For a service that is
  not an action string \<open>SERVICE_URLS[service]\<close> is undefined and \<open>connectMCP\<close>
  throws.
\<close>

fun connectOutcome :: "chosen \<Rightarrow> tool list option \<Rightarrow> tool list option" where
  "connectOutcome (Action a) res = res"
| "connectOutcome (InheritedValue k) res = None"

definition connectAndInjectTools_end :: "string \<Rightarrow> tool list option \<Rightarrow> server \<Rightarrow> server" where
  "connectAndInjectTools_end rid res s =
     (case res of
        Some mcpTools \<Rightarrow> s\<lparr>agentTools := foldl (\<lambda>ts t. ts @ [t]) (agentTools s) mcpTools\<rparr>
      | None \<Rightarrow>
          broadcastToRoom rid
            (ErrorMsg ''Failed to connect to Swiggy. The agent will use built-in suggestions instead.'')
            s)"

text \<open>\<open>processMessage\<close> up to its first \<open>await\<close>.\<close>

definition processMessage :: "string \<Rightarrow> string \<Rightarrow> ws \<Rightarrow> string \<Rightarrow> server \<Rightarrow> server" where
  "processMessage rid uid senderWs txt s =
     (case getRoom (rooms s) rid of
        None \<Rightarrow> s
      | Some r \<Rightarrow>
          (let senderName = (case getPartner r uid of None \<Rightarrow> uid | Some p \<Rightarrow> name p)
           in case actionTypeOf txt of
                None \<Rightarrow> spawn (AwaitSession rid uid senderWs txt) s
              | Some actionType \<Rightarrow>
                  (case chosenAction r of
                     Some chosen \<Rightarrow>
                       sendToClient senderWs
                         (AgentMessage (''Your partner already chose '' @ chosenLabel chosen @
                                        ''! Let's go with that.'')) s
                   | None \<Rightarrow>
                       (let s1 = s\<lparr>rooms := (rooms s)(rid \<mapsto>
                                      r\<lparr>chosenAction := Some actionType, chosenBy := Some uid\<rparr>)\<rparr>;
                            s2 = broadcastToRoom rid (ActionChosen actionType senderName) s1
                        in if \<not> hasTokens s2 rid
                           then spawn (AwaitAuthUrl rid uid senderWs txt) s2
                           else (case connectAndInjectTools_begin rid actionType uid senderWs txt
                                        ContinueMessage s2 of
                                   Some s3 \<Rightarrow> s3
                                 | None \<Rightarrow> spawn (AwaitSession rid uid senderWs txt) s2)))))"

text \<open>
  \<open>processMessage\<close> after \<open>getAuthorizationUrl\<close> returned a URL (\<open>Some authUrl\<close>)
  or threw (\<open>None\<close>).
\<close>

definition afterAuthUrl ::
  "string \<Rightarrow> string \<Rightarrow> ws \<Rightarrow> string \<Rightarrow> string option \<Rightarrow> server \<Rightarrow> server" where
  "afterAuthUrl rid uid senderWs txt res s =
     (case res of
        Some authUrl \<Rightarrow>
          broadcastToRoom rid (SwiggyAuthRequired authUrl)
            (s\<lparr>pendingActions := (pendingActions s)(rid \<mapsto> (uid, txt, senderWs))\<rparr>)
      | None \<Rightarrow>
          sendToClient senderWs
            (ErrorMsg ''Failed to start Swiggy authentication. Please try again.'') s)"

text \<open>
  The callback of \<open>runWithContext\<close> after the session is there: it reads whether an
  action is chosen and starts the run of the agent.
\<close>

definition startAgent :: "string \<Rightarrow> string \<Rightarrow> ws \<Rightarrow> server \<Rightarrow> server" where
  "startAgent rid uid senderWs s =
     (let postAction = (case getRoom (rooms s) rid of
                          None \<Rightarrow> True
                        | Some currentRoom \<Rightarrow> chosenAction currentRoom \<noteq> None)
      in spawn (AgentRun rid uid senderWs postAction) s)"

definition agentResponse :: "string \<Rightarrow> ws \<Rightarrow> bool \<Rightarrow> string \<Rightarrow> server \<Rightarrow> server" where
  "agentResponse rid senderWs postAction responseText s =
     (if responseText = [] then s
      else if postAction then broadcastToRoom rid (AgentMessage responseText) s
      else sendToClient senderWs (AgentMessage responseText) s)"

text \<open>
  The tools the agent may call during a run (agent/tools/quiz.ts, matching.ts), in the
  context of the room and user of the run. Their replies go to the agent; the model
  keeps what they do to the room (a throwing \<open>calculate_match\<close> has not written to
  it). The recipe tool and the discovered remote tools do not write to the room.
\<close>

datatype tool_call = StartQuiz | SubmitAnswer int string | GetQuizStatus | CalculateMatch

definition startQuiz :: "string \<Rightarrow> string \<Rightarrow> room_store \<Rightarrow> room_store" where
  "startQuiz rid uid rs =
     (case getRoom rs rid of
        None \<Rightarrow> rs
      | Some r \<Rightarrow>
          (case getPartnerSlot r uid of
             None \<Rightarrow> rs
           | Some sl \<Rightarrow>
               (let p = the (getPartner r uid)
                in if quizComplete p then rs
                   else (case getNextQuestion (quizAnswers p) of
                           None \<Rightarrow> rs(rid \<mapsto> setPartner r sl (p\<lparr>quizComplete := True\<rparr>))
                         | Some nextQuestion \<Rightarrow> rs))))"

definition submitAnswerTool :: "string \<Rightarrow> string \<Rightarrow> int \<Rightarrow> string \<Rightarrow> room_store \<Rightarrow> room_store" where
  "submitAnswerTool rid uid question_id ans rs =
     (case getRoom rs rid of
        None \<Rightarrow> rs
      | Some r \<Rightarrow>
          (case getPartnerSlot r uid of
             None \<Rightarrow> rs
           | Some sl \<Rightarrow>
               (let p = the (getPartner r uid)
                in if quizComplete p then rs
                   else (case submitAnswer (quizAnswers p) question_id ans of
                           (Inl e, answers) \<Rightarrow> rs
                         | (Inr u, answers) \<Rightarrow>
                             (let p1 = p\<lparr>quizAnswers := answers\<rparr>;
                                  p2 = (if isComplete answers then p1\<lparr>quizComplete := True\<rparr>
                                        else p1)
                              in rs(rid \<mapsto> setPartner r sl p2))))))"

fun runTool :: "string \<Rightarrow> string \<Rightarrow> tool_call \<Rightarrow> room_store \<Rightarrow> room_store" where
  "runTool rid uid StartQuiz rs = startQuiz rid uid rs"
| "runTool rid uid (SubmitAnswer question_id ans) rs = submitAnswerTool rid uid question_id ans rs"
| "runTool rid uid GetQuizStatus rs = rs"
| "runTool rid uid CalculateMatch rs = snd (calculateMatch rs rid)"

text \<open>
  \<open>processMessage\<close> after the run of the agent: the quiz update, and the guarded
  start of the match calculation.
\<close>

definition afterAgent :: "string \<Rightarrow> ws \<Rightarrow> server \<Rightarrow> server" where
  "afterAgent rid senderWs s =
     (case getRoom (rooms s) rid of
        None \<Rightarrow> s
      | Some updated \<Rightarrow>
          (let p1Complete = quizComplete (partner1 updated);
               p2Complete = (case partner2 updated of None \<Rightarrow> False | Some p2 \<Rightarrow> quizComplete p2);
               s1 = broadcastToRoom rid (QuizUpdate p1Complete p2Complete) s
           in if p1Complete \<and> p2Complete \<and> rid \<notin> matchSent s1
              then spawn (AwaitCalc rid senderWs) (s1\<lparr>matchSent := insert rid (matchSent s1)\<rparr>)
              else s1))"

text \<open>
  \<open>sendPersonalizedReveal\<close> composes a text for one partner from both names, the
  compatibility and the breakdown; the entry \<open>PersonalizedReveal\<close> stands for that
  agent message.
\<close>

definition sendPersonalizedReveal :: "string \<Rightarrow> partner \<Rightarrow> partner \<Rightarrow> int \<Rightarrow> server \<Rightarrow> server" where
  "sendPersonalizedReveal rid me them pct s =
     sendToUser rid (userId me) (PersonalizedReveal (name me) (name them) pct) s"

text \<open>
  The \<open>catch\<close> of \<open>processMessage\<close>, and \<open>processMessage\<close> after
  \<open>calculateMatchTool.runAsync\<close> ran the tool: a throw of the tool lands in the
  \<open>catch\<close>, an error object is skipped, a result is broadcast. The source reads the
  recommendations and the two partners from the room object it fetched before the
  calculation; the model reads the room of the store, the same object unless
  \<open>createRoom\<close> has replaced it in between.
\<close>

definition catchError :: "ws \<Rightarrow> server \<Rightarrow> server" where
  "catchError senderWs s =
     sendToClient senderWs (ErrorMsg ''Something went wrong. Please try again.'') s"

definition afterCalc :: "string \<Rightarrow> ws \<Rightarrow> server \<Rightarrow> server" where
  "afterCalc rid senderWs s =
     (case calculateMatch (rooms s) rid of
        (Threw e, rs) \<Rightarrow> catchError senderWs s
      | (ReturnedError e, rs) \<Rightarrow> s
      | (Returned result, rs) \<Rightarrow>
          (let s1 = s\<lparr>rooms := rs\<rparr>
           in case getRoom rs rid of
                None \<Rightarrow> s1
              | Some updated \<Rightarrow>
                  (let s2 = broadcastToRoom rid
                              (MatchResultMsg (compatibility result)
                                 (case matchResult updated of
                                    None \<Rightarrow> [] | Some m \<Rightarrow> recommendations m)) s1
                   in case partner2 updated of
                        None \<Rightarrow> s2
                      | Some p2 \<Rightarrow>
                          sendPersonalizedReveal rid p2 (partner1 updated) (compatibility result)
                            (sendPersonalizedReveal rid (partner1 updated) p2
                               (compatibility result) s2))))"

text \<open>
  \<open>notifyAuthCompleteForRoom\<close> up to its \<open>await\<close>. When there is nothing to wait
  for, the stashed message is handed to \<open>processMessage\<close> at once.
\<close>

definition notifyAuthCompleteForRoom :: "string \<Rightarrow> server \<Rightarrow> server" where
  "notifyAuthCompleteForRoom rid s =
     (let s1 = broadcastToRoom rid SwiggyAuthComplete s
      in case pendingActions s1 rid of
           None \<Rightarrow> s1
         | Some (uid, txt, w) \<Rightarrow>
             (let s2 = s1\<lparr>pendingActions := (pendingActions s1)(rid := None)\<rparr>
              in case getRoom (rooms s2) rid of
                   None \<Rightarrow> s2
                 | Some r \<Rightarrow>
                     (case chosenAction r of
                        None \<Rightarrow> s2
                      | Some chosen \<Rightarrow>
                          (case connectAndInjectTools_begin rid chosen uid w txt ReplayPending s2 of
                             Some s3 \<Rightarrow> s3
                           | None \<Rightarrow> processMessage rid uid w txt s2))))"

text \<open>The connection handler and the close handler of a socket.\<close>

definition onConnection :: "string \<Rightarrow> string \<Rightarrow> ws \<Rightarrow> server \<Rightarrow> server" where
  "onConnection rid uid w s =
     (case getRoom (rooms s) rid of
        None \<Rightarrow> s
      | Some r \<Rightarrow>
          if \<not> isUserInRoom r uid then s
          else
            (let conns = (case roomConnections s rid of None \<Rightarrow> [] | Some c \<Rightarrow> c);
                 s1 = s\<lparr>roomConnections := (roomConnections s)(rid \<mapsto> conns @ [(uid, w)])\<rparr>
             in case getPartner r uid of
                  None \<Rightarrow> s1
                | Some partnerInfo \<Rightarrow>
                    if partner2 r \<noteq> None
                    then broadcastToRoomExcept rid uid (PartnerJoined (name partnerInfo)) s1
                    else s1))"

definition onClose :: "string \<Rightarrow> string \<Rightarrow> ws \<Rightarrow> server \<Rightarrow> server" where
  "onClose rid uid w s =
     (case roomConnections s rid of
        None \<Rightarrow> s
      | Some conns \<Rightarrow>
          (let conns' = remove1 (uid, w) conns
           in if conns' = []
              then s\<lparr>roomConnections := (roomConnections s)(rid := None),
                     matchSent := matchSent s - {rid}\<rparr>
              else s\<lparr>roomConnections := (roomConnections s)(rid \<mapsto> conns')\<rparr>))"

definition connected :: "server \<Rightarrow> string \<Rightarrow> string \<Rightarrow> ws \<Rightarrow> bool" where
  "connected s rid uid w =
     (case roomConnections s rid of None \<Rightarrow> False | Some conns \<Rightarrow> (uid, w) \<in> set conns)"

definition agentRunning :: "server \<Rightarrow> string \<Rightarrow> string \<Rightarrow> bool" where
  "agentRunning s rid uid =
     list_ex (\<lambda>t. case t of AgentRun rid' uid' w pa \<Rightarrow> rid' = rid \<and> uid' = uid | _ \<Rightarrow> False)
       (tasks s)"

text \<open>
  The events of the server: the two HTTP routes that create and join rooms, the socket
  events, the OAuth callback with the outcome of the code exchange, and the completions
  of awaited operations with what they returned. A run of the agent yields final
  responses and tool calls and then ends, or throws into the \<open>catch\<close> of
  \<open>processMessage\<close>; the awaited match calculation runs the tool, or fails before
  the tool ran and lands in the same \<open>catch\<close>. An event that cannot occur in the
  state (a message on a socket that is not connected, the completion of an operation
  nobody awaits) leaves the state as it is. \<open>createRoom\<close> stores the new room under
  the id it drew whether or not the id is in use.
\<close>

datatype event =
    CreateRoom string nat string string string
  | JoinRoom string string string string
  | Connection string string ws
  | Close string string ws
  | Message string string ws string
  | AuthCallback string "string option"
  | AuthUrlReturned string string ws string "string option"
  | ConnectReturned string chosen string ws string after_connect "tool list option"
  | SessionReady string string ws string
  | AgentResponse string string ws bool string
  | ToolCall string string tool_call
  | AgentFinished string string ws bool
  | AgentFailed string string ws bool
  | MatchCalculated string ws
  | MatchFailed string ws

fun step :: "event \<Rightarrow> server \<Rightarrow> server" where
  "step (CreateRoom rid now uid nm ph) s =
     s\<lparr>rooms := snd (createRoom (rooms s) rid now uid nm ph)\<rparr>"
| "step (JoinRoom rid uid nm ph) s = s\<lparr>rooms := snd (joinRoom (rooms s) rid uid nm ph)\<rparr>"
| "step (Connection rid uid w) s = onConnection rid uid w s"
| "step (Close rid uid w) s = onClose rid uid w s"
| "step (Message rid uid w txt) s =
     (if connected s rid uid w \<and> txt \<noteq> [] then processMessage rid uid w txt s else s)"
| "step (AuthCallback rid res) s =
     (case res of
        None \<Rightarrow> s
      | Some tokens \<Rightarrow>
          notifyAuthCompleteForRoom rid
            (s\<lparr>roomAuthStore := (roomAuthStore s)(rid \<mapsto> tokens)\<rparr>))"
| "step (AuthUrlReturned rid uid w txt res) s =
     (if AwaitAuthUrl rid uid w txt \<in> set (tasks s)
      then afterAuthUrl rid uid w txt res (finish (AwaitAuthUrl rid uid w txt) s)
      else s)"
| "step (ConnectReturned rid a uid w txt k res) s =
     (if AwaitConnect rid a uid w txt k \<in> set (tasks s)
      then (let s1 = connectAndInjectTools_end rid (connectOutcome a res)
                       (finish (AwaitConnect rid a uid w txt k) s)
            in case k of
                 ContinueMessage \<Rightarrow> spawn (AwaitSession rid uid w txt) s1
               | ReplayPending \<Rightarrow> processMessage rid uid w txt s1)
      else s)"
| "step (SessionReady rid uid w txt) s =
     (if AwaitSession rid uid w txt \<in> set (tasks s)
      then startAgent rid uid w (finish (AwaitSession rid uid w txt) s)
      else s)"
| "step (AgentResponse rid uid w pa responseText) s =
     (if AgentRun rid uid w pa \<in> set (tasks s) then agentResponse rid w pa responseText s
      else s)"
| "step (ToolCall rid uid c) s =
     (if agentRunning s rid uid then s\<lparr>rooms := runTool rid uid c (rooms s)\<rparr> else s)"
| "step (AgentFinished rid uid w pa) s =
     (if AgentRun rid uid w pa \<in> set (tasks s)
      then afterAgent rid w (finish (AgentRun rid uid w pa) s)
      else s)"
| "step (AgentFailed rid uid w pa) s =
     (if AgentRun rid uid w pa \<in> set (tasks s)
      then catchError w (finish (AgentRun rid uid w pa) s)
      else s)"
| "step (MatchCalculated rid w) s =
     (if AwaitCalc rid w \<in> set (tasks s)
      then afterCalc rid w (finish (AwaitCalc rid w) s)
      else s)"
| "step (MatchFailed rid w) s =
     (if AwaitCalc rid w \<in> set (tasks s)
      then catchError w (finish (AwaitCalc rid w) s)
      else s)"

text \<open>A run of the server: the events in the order in which they are handled.\<close>

fun run :: "event list \<Rightarrow> server \<Rightarrow> server" where
  "run [] s = s"
| "run (e # es) s = run es (step e s)"

section \<open>Definitions used to state the properties\<close>

text \<open>
  A sequence of submit calls on one array, whatever their results: the array as the
  calls leave it. The arrays the program holds are those that calls of \<open>submitAnswer\<close>
  leave of the empty array of a new partner.
\<close>

fun submitCalls :: "quiz_answer list \<Rightarrow> (int \<times> string) list \<Rightarrow> quiz_answer list" where
  "submitCalls answers [] = answers"
| "submitCalls answers ((qid, ans) # calls) =
     submitCalls (snd (submitAnswer answers qid ans)) calls"

text \<open>The answer array's entry for a question id, as \<open>Array.find\<close> returns it.\<close>

definition findAnswer :: "quiz_answer list \<Rightarrow> int \<Rightarrow> quiz_answer option" where
  "findAnswer a qid = find (\<lambda>x. questionId x = qid) a"

text \<open>An answer array that holds an answer to every fixed question.\<close>

definition answersEvery :: "quiz_answer list \<Rightarrow> bool" where
  "answersEvery a = list_all (\<lambda>q. findAnswer a (id_q q) \<noteq> None) QUIZ_QUESTIONS"

text \<open>
  The score of one question in the words of the specification: 100 for identical
  values, 60 when the category's table has a row for the first value that lists the
  second, 20 otherwise; the breakdown has one entry per fixed question both sides
  answered, in the order of the questions; the percentage is the share of the score sum
  in question count times 100, rounded to the nearest integer (a half goes up).
\<close>

definition related :: "string \<Rightarrow> string \<Rightarrow> string \<Rightarrow> bool" where
  "related cat v1 v2 =
     (case map_of COMPATIBILITY_MAPS cat of
        None \<Rightarrow> False
      | Some table \<Rightarrow>
          (case map_of table v1 of
             None \<Rightarrow> False
           | Some row \<Rightarrow> v2 \<in> set row))"

definition specScore :: "string \<Rightarrow> string \<Rightarrow> string \<Rightarrow> int" where
  "specScore cat v1 v2 = (if v1 = v2 then 100 else if related cat v1 v2 then 60 else 20)"

definition bothAnswered :: "quiz_answer list \<Rightarrow> quiz_answer list \<Rightarrow> quiz_question \<Rightarrow> bool" where
  "bothAnswered a1 a2 q = (findAnswer a1 (id_q q) \<noteq> None \<and> findAnswer a2 (id_q q) \<noteq> None)"

definition specEntry ::
  "quiz_answer list \<Rightarrow> quiz_answer list \<Rightarrow> quiz_question \<Rightarrow> question_match" where
  "specEntry a1 a2 q =
     (let v1 = answer (the (findAnswer a1 (id_q q)));
          v2 = answer (the (findAnswer a2 (id_q q)))
      in \<lparr>questionId_m = id_q q, partner1Answer = v1, partner2Answer = v2,
          score = specScore (category q) v1 v2\<rparr>)"

definition specBreakdown ::
  "quiz_question list \<Rightarrow> quiz_answer list \<Rightarrow> quiz_answer list \<Rightarrow> question_match list" where
  "specBreakdown qs a1 a2 = map (specEntry a1 a2) (filter (bothAnswered a1 a2) qs)"

definition specPercent :: "question_match list \<Rightarrow> int" where
  "specPercent bd =
     \<lfloor>real_of_int (sum_list (map score bd)) /
        real_of_int (int (length QUIZ_QUESTIONS) * 100) * 100 + 1 / 2\<rfloor>"

text \<open>An answer array none of whose values names a property of \<open>Object.prototype\<close>.\<close>

definition plainAnswers :: "quiz_answer list \<Rightarrow> bool" where
  "plainAnswers a = list_all (\<lambda>x. answer x \<notin> set objectPrototypeKeys) a"

text \<open>Whether \<open>calculate_match\<close> returns a result for the room.\<close>

definition calcReturns :: "room_store \<Rightarrow> string \<Rightarrow> bool" where
  "calcReturns rs rid =
     (case fst (calculateMatch rs rid) of
        Returned m \<Rightarrow> True
      | Threw e \<Rightarrow> False
      | ReturnedError e \<Rightarrow> False)"

text \<open>The \<open>match_result\<close> broadcasts to a room among what the server has sent.\<close>

fun isMatchResultFor :: "string \<Rightarrow> send \<Rightarrow> bool" where
  "isMatchResultFor rid (BroadcastToRoom rid' (MatchResultMsg c recs) targets) = (rid' = rid)"
| "isMatchResultFor rid other = False"

definition matchBroadcasts :: "string \<Rightarrow> server \<Rightarrow> nat" where
  "matchBroadcasts rid s = length (filter (isMatchResultFor rid) (sent s))"

text \<open>
  How often, in a run from a state, a close handler found the room's connection list
  empty and cleared the room's \<open>matchSent\<close> entry.
\<close>

definition clearsRoom :: "string \<Rightarrow> event \<Rightarrow> server \<Rightarrow> bool" where
  "clearsRoom rid e s =
     (case e of
        Close rid' uid w \<Rightarrow>
          rid' = rid \<and>
          (case roomConnections s rid of
             None \<Rightarrow> False
           | Some conns \<Rightarrow> remove1 (uid, w) conns = [])
      | _ \<Rightarrow> False)"

fun clearings :: "string \<Rightarrow> event list \<Rightarrow> server \<Rightarrow> nat" where
  "clearings rid [] s = 0"
| "clearings rid (e # es) s =
     (if clearsRoom rid e s then 1 else 0) + clearings rid es (step e s)"

section \<open>Example data\<close>

text \<open>
  Two answer arrays over the offered options that differ in the mood question only, the
  second in another order of submission, and the first array with the free text
  \<open>constructor\<close> as the answer to the cuisine question.
\<close>

definition exampleAnswers1 :: "quiz_answer list" where
  "exampleAnswers1 =
    [\<lparr>questionId = 1, answer = ''Chinese''\<rparr>, \<lparr>questionId = 2, answer = ''Mild''\<rparr>,
     \<lparr>questionId = 3, answer = ''Veg''\<rparr>, \<lparr>questionId = 4, answer = rupee @ ''200-400''\<rparr>,
     \<lparr>questionId = 5, answer = ''Home-cooked''\<rparr>,
     \<lparr>questionId = 6, answer = ''Pizza/Pasta''\<rparr>]"

definition exampleAnswers2 :: "quiz_answer list" where
  "exampleAnswers2 =
    [\<lparr>questionId = 6, answer = ''Pizza/Pasta''\<rparr>,
     \<lparr>questionId = 5, answer = ''Cozy & Romantic''\<rparr>,
     \<lparr>questionId = 4, answer = rupee @ ''200-400''\<rparr>, \<lparr>questionId = 3, answer = ''Veg''\<rparr>,
     \<lparr>questionId = 2, answer = ''Mild''\<rparr>, \<lparr>questionId = 1, answer = ''Chinese''\<rparr>]"

definition constructorAnswers :: "quiz_answer list" where
  "constructorAnswers =
    [\<lparr>questionId = 1, answer = ''constructor''\<rparr>, \<lparr>questionId = 2, answer = ''Mild''\<rparr>,
     \<lparr>questionId = 3, answer = ''Veg''\<rparr>, \<lparr>questionId = 4, answer = rupee @ ''200-400''\<rparr>,
     \<lparr>questionId = 5, answer = ''Home-cooked''\<rparr>,
     \<lparr>questionId = 6, answer = ''Pizza/Pasta''\<rparr>]"

text \<open>
  The chosen action and its chooser of a room of the store, and the state of a room that
  is locked to an action by a user.
\<close>

definition chosenOf :: "room_store \<Rightarrow> string \<Rightarrow> (chosen option \<times> string option) option" where
  "chosenOf rs rid = map_option (\<lambda>r. (chosenAction r, chosenBy r)) (rs rid)"



text \<open>
  The match calculations of a room that are under way, and the quantity the reveal guard
  controls: broadcasts made plus calculations under way, less one while the room is in
  \<open>matchSent\<close>.
\<close>

fun isCalcOf :: "string \<Rightarrow> task \<Rightarrow> bool" where
  "isCalcOf rid (AwaitCalc rid' w) = (rid' = rid)"
| "isCalcOf rid other = False"

definition pendingCalcs :: "string \<Rightarrow> server \<Rightarrow> nat" where
  "pendingCalcs rid s = length (filter (isCalcOf rid) (tasks s))"

definition revealPotential :: "string \<Rightarrow> server \<Rightarrow> int" where
  "revealPotential rid s =
     int (matchBroadcasts rid s) + int (pendingCalcs rid s) -
     (if rid \<in> matchSent s then 1 else 0)"

fun isMatchResultMsg :: "ws_message \<Rightarrow> bool" where
  "isMatchResultMsg (MatchResultMsg c recs) = True"
| "isMatchResultMsg other = False"

text \<open>
  Runs of the server. \<open>lockRun\<close>: a room is created and joined and both partners
  connect. \<open>afterLock\<close>: what may follow a first action choice. \<open>quizStart\<close>: both
  partners write while the other's message is still being processed, and each run of the
  agent submits the six answers. \<open>quizRun\<close>: after that, both runs of the agent end
  and the match is calculated. \<open>constructorStart\<close> and \<open>constructorRun\<close>: the same
  with the free text \<open>constructor\<close> as the first partner's answer to the cuisine
  question. \<open>inheritedLock\<close>: the first partner writes the text \<open>constructor\<close>. \<open>reconnectRun\<close>: both sockets close, the partners connect
  again and one of them writes. \<open>toolsRun\<close>: two rooms choose to order in and authorize,
  and the tool discovery returns a tool of the same name for each. \<open>failedAuthRun\<close>:
  a partner chooses an action in a room without tokens and the request for the
  authorization URL fails.
\<close>

definition lockRun :: "event list" where
  "lockRun =
    [CreateRoom ''r1'' 0 ''p1'' ''Asha'' ''1'', JoinRoom ''r1'' ''p2'' ''Ravi'' ''2'',
     Connection ''r1'' ''p1'' 1, Connection ''r1'' ''p2'' 2]"


definition quizStart :: "event list" where
  "quizStart =
    lockRun @
    [Message ''r1'' ''p1'' 1 ''hi'', SessionReady ''r1'' ''p1'' 1 ''hi'',
     Message ''r1'' ''p2'' 2 ''hello'', SessionReady ''r1'' ''p2'' 2 ''hello'',
     ToolCall ''r1'' ''p1'' (SubmitAnswer 1 ''Chinese''),
     ToolCall ''r1'' ''p2'' (SubmitAnswer 1 ''Chinese''),
     ToolCall ''r1'' ''p1'' (SubmitAnswer 2 ''Mild''),
     ToolCall ''r1'' ''p2'' (SubmitAnswer 2 ''Medium''),
     ToolCall ''r1'' ''p1'' (SubmitAnswer 3 ''Veg''),
     ToolCall ''r1'' ''p2'' (SubmitAnswer 3 ''Veg''),
     ToolCall ''r1'' ''p1'' (SubmitAnswer 4 ''any''),
     ToolCall ''r1'' ''p2'' (SubmitAnswer 4 ''any''),
     ToolCall ''r1'' ''p1'' (SubmitAnswer 5 ''Fine Dining''),
     ToolCall ''r1'' ''p2'' (SubmitAnswer 5 ''Fine Dining''),
     ToolCall ''r1'' ''p1'' (SubmitAnswer 6 ''Pizza/Pasta''),
     ToolCall ''r1'' ''p2'' (SubmitAnswer 6 ''Pizza/Pasta'')]"

definition quizRun :: "event list" where
  "quizRun =
    quizStart @
    [AgentFinished ''r1'' ''p1'' 1 False, AgentFinished ''r1'' ''p2'' 2 False,
     MatchCalculated ''r1'' 1]"

definition constructorStart :: "event list" where
  "constructorStart =
    lockRun @
    [Message ''r1'' ''p1'' 1 ''hi'', SessionReady ''r1'' ''p1'' 1 ''hi'',
     Message ''r1'' ''p2'' 2 ''hello'', SessionReady ''r1'' ''p2'' 2 ''hello'',
     ToolCall ''r1'' ''p1'' (SubmitAnswer 1 ''constructor''),
     ToolCall ''r1'' ''p2'' (SubmitAnswer 1 ''Chinese''),
     ToolCall ''r1'' ''p1'' (SubmitAnswer 2 ''Mild''),
     ToolCall ''r1'' ''p2'' (SubmitAnswer 2 ''Medium''),
     ToolCall ''r1'' ''p1'' (SubmitAnswer 3 ''Veg''),
     ToolCall ''r1'' ''p2'' (SubmitAnswer 3 ''Veg''),
     ToolCall ''r1'' ''p1'' (SubmitAnswer 4 ''any''),
     ToolCall ''r1'' ''p2'' (SubmitAnswer 4 ''any''),
     ToolCall ''r1'' ''p1'' (SubmitAnswer 5 ''Fine Dining''),
     ToolCall ''r1'' ''p2'' (SubmitAnswer 5 ''Fine Dining''),
     ToolCall ''r1'' ''p1'' (SubmitAnswer 6 ''Pizza/Pasta''),
     ToolCall ''r1'' ''p2'' (SubmitAnswer 6 ''Pizza/Pasta'')]"

definition constructorRun :: "event list" where
  "constructorRun =
    constructorStart @
    [AgentFinished ''r1'' ''p1'' 1 False, AgentFinished ''r1'' ''p2'' 2 False,
     MatchCalculated ''r1'' 1]"

definition inheritedLock :: "event list" where
  "inheritedLock = lockRun @ [Message ''r1'' ''p1'' 1 ''constructor'']"

definition reconnectRun :: "event list" where
  "reconnectRun =
    [Close ''r1'' ''p1'' 1, Close ''r1'' ''p2'' 2,
     Connection ''r1'' ''p1'' 3, Connection ''r1'' ''p2'' 4,
     Message ''r1'' ''p1'' 3 ''hi again'', SessionReady ''r1'' ''p1'' 3 ''hi again'',
     AgentFinished ''r1'' ''p1'' 3 False, MatchCalculated ''r1'' 3]"

definition toolsRun :: "event list" where
  "toolsRun =
    [CreateRoom ''rA'' 0 ''a1'' ''Asha'' ''1'', CreateRoom ''rB'' 0 ''b1'' ''Bela'' ''3'',
     Connection ''rA'' ''a1'' 1, Connection ''rB'' ''b1'' 2,
     Message ''rA'' ''a1'' 1 ''Let's order in!'',
     AuthUrlReturned ''rA'' ''a1'' 1 ''Let's order in!'' (Some ''https://auth/rA''),
     AuthCallback ''rA'' (Some ''tokenA''),
     ConnectReturned ''rA'' (Action Delivery) ''a1'' 1 ''Let's order in!'' ReplayPending
       (Some [\<lparr>name_t = ''search_restaurants'', description_t = ''for room rA''\<rparr>]),
     Message ''rB'' ''b1'' 2 ''Let's order in!'',
     AuthUrlReturned ''rB'' ''b1'' 2 ''Let's order in!'' (Some ''https://auth/rB''),
     AuthCallback ''rB'' (Some ''tokenB''),
     ConnectReturned ''rB'' (Action Delivery) ''b1'' 2 ''Let's order in!'' ReplayPending
       (Some [\<lparr>name_t = ''search_restaurants'', description_t = ''for room rB''\<rparr>])]"

definition failedAuthRun :: "event list" where
  "failedAuthRun =
    lockRun @
    [Message ''r1'' ''p1'' 1 ''Let's order in!'',
     AuthUrlReturned ''r1'' ''p1'' 1 ''Let's order in!'' None]"

text \<open>
  What the quiz tools maintain for a partner: the answered ids are distinct ids of fixed
  questions, and a partner marked complete has answered every fixed question.
\<close>

definition partnerOk :: "partner \<Rightarrow> bool" where
  "partnerOk p =
     (distinct (map questionId (quizAnswers p)) \<and>
      list_all (\<lambda>a. questionId a \<in> set (map id_q QUIZ_QUESTIONS)) (quizAnswers p) \<and>
      (if quizComplete p then answersEvery (quizAnswers p) else True))"

definition roomOk :: "room \<Rightarrow> bool" where
  "roomOk r =
     (partnerOk (partner1 r) \<and> (case partner2 r of None \<Rightarrow> True | Some p \<Rightarrow> partnerOk p))"

definition okStore :: "room_store \<Rightarrow> bool" where
  "okStore rs = (\<forall>k r. rs k = Some r \<longrightarrow> roomOk r)"

section \<open>Properties of the quiz service\<close>

lemma qids: "map id_q QUIZ_QUESTIONS = [1, 2, 3, 4, 5, 6]"
  by (simp add: QUIZ_QUESTIONS_def)

lemma length_QUIZ_QUESTIONS: "length QUIZ_QUESTIONS = 6"
  by (simp add: QUIZ_QUESTIONS_def)

lemma find_question_None:
  "(find (\<lambda>q. id_q q = qid) QUIZ_QUESTIONS = None) = (qid \<notin> set (map id_q QUIZ_QUESTIONS))"
  by (auto simp: find_None_iff)

lemma submitAnswer_invalid:
  "qid \<notin> set (map id_q QUIZ_QUESTIONS) \<Longrightarrow>
   submitAnswer answers qid ans = (Inl (InvalidQuestionID qid), answers)"
  using find_question_None [of qid] by (simp add: submitAnswer_def)

lemma submitAnswer_duplicate:
  "qid \<in> set (map id_q QUIZ_QUESTIONS) \<Longrightarrow> qid \<in> set (map questionId answers) \<Longrightarrow>
   submitAnswer answers qid ans = (Inl (AlreadyAnswered qid), answers)"
  using find_question_None [of qid]
  by (auto simp: submitAnswer_def list_ex_iff split: option.splits)

lemma submitAnswer_fresh:
  "qid \<in> set (map id_q QUIZ_QUESTIONS) \<Longrightarrow> qid \<notin> set (map questionId answers) \<Longrightarrow>
   submitAnswer answers qid ans = (Inr (), answers @ [\<lparr>questionId = qid, answer = ans\<rparr>])"
  using find_question_None [of qid]
  by (cases "find (\<lambda>q. id_q q = qid) QUIZ_QUESTIONS")
     (auto simp: submitAnswer_def list_ex_iff image_iff)

text \<open>Calls with distinct valid ids that the array does not hold yet all succeed.\<close>

lemma submitAll_distinct:
  "distinct (map fst calls) \<Longrightarrow> set (map fst calls) \<subseteq> set (map id_q QUIZ_QUESTIONS) \<Longrightarrow>
   set (map fst calls) \<inter> set (map questionId answers) = {} \<Longrightarrow>
   submitAll answers calls =
     Some (answers @ map (\<lambda>(qid, ans). \<lparr>questionId = qid, answer = ans\<rparr>) calls)"
proof (induction calls arbitrary: answers)
  case Nil
  then show ?case by simp
next
  case (Cons c calls)
  obtain qid ans where c: "c = (qid, ans)" by (cases c)
  from Cons.prems c have v: "qid \<in> set (map id_q QUIZ_QUESTIONS)"
    and f: "qid \<notin> set (map questionId answers)" by auto
  let ?a = "answers @ [\<lparr>questionId = qid, answer = ans\<rparr>]"
  have "submitAll ?a calls = Some (?a @ map (\<lambda>(qid, ans). \<lparr>questionId = qid, answer = ans\<rparr>) calls)"
    using Cons.prems c by (intro Cons.IH) auto
  then show ?case using c submitAnswer_fresh [OF v f] by simp
qed

text \<open>Conversely, calls that all succeed have distinct valid ids new to the array.\<close>

lemma submitAll_success:
  "submitAll answers calls = Some answers' \<Longrightarrow>
   distinct (map fst calls) \<and> set (map fst calls) \<subseteq> set (map id_q QUIZ_QUESTIONS) \<and>
   set (map fst calls) \<inter> set (map questionId answers) = {}"
proof (induction calls arbitrary: answers)
  case Nil
  then show ?case by simp
next
  case (Cons c calls)
  obtain qid ans where c: "c = (qid, ans)" by (cases c)
  show ?case
  proof (cases "qid \<in> set (map id_q QUIZ_QUESTIONS)")
    case False
    then show ?thesis using Cons.prems c submitAnswer_invalid [of qid answers ans] by simp
  next
    case v: True
    show ?thesis
    proof (cases "qid \<in> set (map questionId answers)")
      case True
      then show ?thesis using Cons.prems c submitAnswer_duplicate [OF v, of answers ans] by simp
    next
      case f: False
      let ?a = "answers @ [\<lparr>questionId = qid, answer = ans\<rparr>]"
      have "submitAll ?a calls = Some answers'"
        using Cons.prems c submitAnswer_fresh [OF v f] by simp
      from Cons.IH [OF this] show ?thesis using c v f by auto
    qed
  qed
qed

lemma distinct_subset_full:
  fixes xs :: "int list"
  assumes "distinct xs" "set xs \<subseteq> set (map id_q QUIZ_QUESTIONS)"
  shows "(length xs \<ge> length QUIZ_QUESTIONS) = (set xs = set (map id_q QUIZ_QUESTIONS))"
proof -
  let ?Q = "set (map id_q QUIZ_QUESTIONS)"
  have cq: "card ?Q = 6" by (simp add: qids)
  have lx: "length xs = card (set xs)" using assms(1) by (simp add: distinct_card)
  have le: "card (set xs) \<le> card ?Q" using assms(2) by (intro card_mono) auto
  show ?thesis
  proof
    assume "length QUIZ_QUESTIONS \<le> length xs"
    then have "card (set xs) = card ?Q" using lx le cq length_QUIZ_QUESTIONS by simp
    then show "set xs = ?Q" using assms(2) by (intro card_subset_eq) auto
  next
    assume "set xs = ?Q"
    then show "length QUIZ_QUESTIONS \<le> length xs" using lx cq length_QUIZ_QUESTIONS by simp
  qed
qed

text \<open>
  Claim C6. Starting from the empty array, every sequence of submit calls with distinct
  valid question ids succeeds call by call, the array then holds exactly the submitted
  ids, and \<open>isComplete\<close> is true of it exactly when the submitted ids are all the ids
  of the fixed questions. The sequence is arbitrary, so the order of submission does not
  matter.
\<close>

theorem isComplete_iff_all_questions:
  assumes "distinct (map fst calls)"
    and "set (map fst calls) \<subseteq> set (map id_q QUIZ_QUESTIONS)"
  shows "\<exists>answers. submitAll [] calls = Some answers \<and>
           map questionId answers = map fst calls \<and>
           (isComplete answers \<longleftrightarrow> set (map fst calls) = set (map id_q QUIZ_QUESTIONS))"
proof -
  let ?a = "map (\<lambda>(qid, ans). \<lparr>questionId = qid, answer = ans\<rparr>) calls"
  have s: "submitAll [] calls = Some ?a"
    using submitAll_distinct [OF assms, of "[]"] by simp
  have m: "map questionId ?a = map fst calls" by (induction calls) auto
  have "isComplete ?a = (length (map fst calls) \<ge> length QUIZ_QUESTIONS)"
    by (simp add: isComplete_def)
  also have "\<dots> = (set (map fst calls) = set (map id_q QUIZ_QUESTIONS))"
    using distinct_subset_full [OF assms] .
  finally show ?thesis using s m by blast
qed

theorem isComplete_iff_all_questions_witness:
  "(\<exists>answers. submitAll [] [(3, ''Veg''), (1, ''Chinese''), (6, ''Pizza/Pasta''), (2, ''Mild''),
        (5, ''Fine Dining''), (4, ''cheap'')] = Some answers \<and> isComplete answers) \<and>
   (\<exists>answers. submitAll [] [(3, ''Veg''), (1, ''Chinese'')] = Some answers \<and> \<not> isComplete answers)"
proof -
  have a: "set (map fst [(3::int, ''Veg''), (1, ''Chinese''), (6, ''Pizza/Pasta''), (2, ''Mild''),
        (5, ''Fine Dining''), (4, ''cheap'')]) = set (map id_q QUIZ_QUESTIONS)"
    by (auto simp: qids)
  have b: "set (map fst [(3::int, ''Veg''), (1, ''Chinese'')]) \<noteq> set (map id_q QUIZ_QUESTIONS)"
  proof
    assume "set (map fst [(3::int, ''Veg''), (1, ''Chinese'')]) = set (map id_q QUIZ_QUESTIONS)"
    then have "(2::int) \<in> set (map fst [(3::int, ''Veg''), (1, ''Chinese'')])"
      by (simp add: qids)
    then show False by simp
  qed
  show ?thesis
    using isComplete_iff_all_questions [of "[(3, ''Veg''), (1, ''Chinese''), (6, ''Pizza/Pasta''),
        (2, ''Mild''), (5, ''Fine Dining''), (4, ''cheap'')]"]
      isComplete_iff_all_questions [of "[(3, ''Veg''), (1, ''Chinese'')]"] a b
    by (auto simp: qids)
qed

text \<open>
  Whatever calls of \<open>submitAnswer\<close> have been made on an array that was empty, the
  ids it holds are ids of fixed questions.
\<close>

lemma submitAnswer_ids:
  "set (map questionId (snd (submitAnswer answers qid ans))) \<subseteq>
     set (map questionId answers) \<union> set (map id_q QUIZ_QUESTIONS)"
proof (cases "qid \<in> set (map id_q QUIZ_QUESTIONS)")
  case False
  then show ?thesis by (simp add: submitAnswer_invalid)
next
  case v: True
  show ?thesis
  proof (cases "qid \<in> set (map questionId answers)")
    case True
    then show ?thesis using submitAnswer_duplicate [OF v] by simp
  next
    case False
    then show ?thesis using v submitAnswer_fresh [OF v False] by auto
  qed
qed

lemma submitCalls_ids:
  "set (map questionId answers) \<subseteq> set (map id_q QUIZ_QUESTIONS) \<Longrightarrow>
   set (map questionId (submitCalls answers calls)) \<subseteq> set (map id_q QUIZ_QUESTIONS)"
proof (induction calls arbitrary: answers)
  case Nil
  then show ?case by simp
next
  case (Cons c calls)
  obtain qid ans where c: "c = (qid, ans)" by (cases c)
  have "set (map questionId (snd (submitAnswer answers qid ans))) \<subseteq>
      set (map id_q QUIZ_QUESTIONS)"
    using submitAnswer_ids [of answers qid ans] Cons.prems by blast
  from Cons.IH [OF this] show ?case using c by simp
qed

text \<open>
  Claim C7. For every answer array that calls of \<open>submitAnswer\<close> have built from
  the empty array, whatever the calls and their results, and every question id: a call
  with an id that the array holds fails with the already-answered error, a call with an
  id outside the fixed question set fails with the invalid-question error, and both
  leave the array as it was.
\<close>

theorem submitAnswer_failures:
  "(qid \<in> set (map questionId (submitCalls [] calls)) \<longrightarrow>
      submitAnswer (submitCalls [] calls) qid ans =
        (Inl (AlreadyAnswered qid), submitCalls [] calls)) \<and>
   (qid \<notin> set (map id_q QUIZ_QUESTIONS) \<longrightarrow>
      submitAnswer (submitCalls [] calls) qid ans =
        (Inl (InvalidQuestionID qid), submitCalls [] calls))"
proof -
  have "set (map questionId (submitCalls [] calls)) \<subseteq> set (map id_q QUIZ_QUESTIONS)"
    by (rule submitCalls_ids) simp
  then show ?thesis using submitAnswer_invalid submitAnswer_duplicate by blast
qed

text \<open>
  After a call that succeeds, a call with an invalid id and a call that repeats the first
  id, the array holds the first answer only; a call with the same id and another value
  is refused as already answered, a call with the id 9 as invalid.
\<close>

theorem submitAnswer_failures_witness:
  "submitCalls [] [(1, ''Chinese''), (9, ''x''), (1, ''Thai'')] =
     [\<lparr>questionId = 1, answer = ''Chinese''\<rparr>] \<and>
   submitAnswer [\<lparr>questionId = 1, answer = ''Chinese''\<rparr>] 1 ''Italian'' =
     (Inl (AlreadyAnswered 1), [\<lparr>questionId = 1, answer = ''Chinese''\<rparr>]) \<and>
   submitAnswer [\<lparr>questionId = 1, answer = ''Chinese''\<rparr>] 9 ''x'' =
     (Inl (InvalidQuestionID 9), [\<lparr>questionId = 1, answer = ''Chinese''\<rparr>])"
proof -
  have b: "submitCalls [] [(1, ''Chinese''), (9, ''x''), (1, ''Thai'')] =
      [\<lparr>questionId = 1, answer = ''Chinese''\<rparr>]"
    by (simp add: submitAnswer_def QUIZ_QUESTIONS_def)
  note T = submitAnswer_failures [of _ "[(1, ''Chinese''), (9, ''x''), (1, ''Thai'')]",
      unfolded b]
  show ?thesis using T [of 1 "''Italian''"] T [of 9 "''x''"] b by (simp add: qids)
qed

section \<open>Properties of the room service\<close>

text \<open>
  Claim C9, as stated, at a full room whose first participant joins again: the call
  fails with \<open>Room is full\<close>, not with \<open>You are already in this room\<close>, because the
  second slot is checked first.
\<close>

theorem joinRoom_full_first_counterexample:
  "fst (joinRoom
         (snd (joinRoom (snd (createRoom Map.empty ''r1'' 0 ''p1'' ''Asha'' ''1''))
                 ''r1'' ''p2'' ''Ravi'' ''2''))
         ''r1'' ''p1'' ''Asha'' ''1'') = Inl RoomIsFull \<and>
   fst (joinRoom
         (snd (joinRoom (snd (createRoom Map.empty ''r1'' 0 ''p1'' ''Asha'' ''1''))
                 ''r1'' ''p2'' ''Ravi'' ''2''))
         ''r1'' ''p1'' ''Asha'' ''1'') \<noteq> Inl AlreadyInRoom"
  by (simp add: joinRoom_def createRoom_def Let_def)

text \<open>
  Claim C9, amended. On an existing room, \<open>joinRoom\<close> fails with Full when the second
  slot is occupied; it fails with AlreadyIn when the second slot is free and the joining
  identifier is the first participant's; on both failures the store is unchanged. In the
  remaining case it succeeds and sets the second slot to the joiner with an empty answer
  list, leaving the other fields of the room as they were.
\<close>

theorem joinRoom_cases:
  assumes "rs rid = Some r"
  shows "(partner2 r \<noteq> None \<longrightarrow> joinRoom rs rid uid nm ph = (Inl RoomIsFull, rs)) \<and>
         (partner2 r = None \<and> userId (partner1 r) = uid \<longrightarrow>
            joinRoom rs rid uid nm ph = (Inl AlreadyInRoom, rs)) \<and>
         (partner2 r = None \<and> userId (partner1 r) \<noteq> uid \<longrightarrow>
            joinRoom rs rid uid nm ph =
              (Inr (r\<lparr>partner2 := Some \<lparr>userId = uid, name = nm, phone = ph,
                                          quizAnswers = [], quizComplete = False\<rparr>\<rparr>),
               rs(rid \<mapsto> r\<lparr>partner2 := Some \<lparr>userId = uid, name = nm, phone = ph,
                                                quizAnswers = [], quizComplete = False\<rparr>\<rparr>)))"
  using assms by (simp add: joinRoom_def Let_def)

theorem joinRoom_cases_witness:
  "joinRoom (snd (createRoom Map.empty ''r1'' 0 ''p1'' ''Asha'' ''1'')) ''r1'' ''p1'' ''Asha'' ''1'' =
     (Inl AlreadyInRoom, snd (createRoom Map.empty ''r1'' 0 ''p1'' ''Asha'' ''1'')) \<and>
   (\<exists>r'. fst (joinRoom (snd (createRoom Map.empty ''r1'' 0 ''p1'' ''Asha'' ''1''))
                ''r1'' ''p2'' ''Ravi'' ''2'') = Inr r' \<and>
         map_option userId (partner2 r') = Some ''p2'' \<and>
         map_option quizAnswers (partner2 r') = Some [])"
proof -
  let ?rs = "snd (createRoom Map.empty ''r1'' 0 ''p1'' ''Asha'' ''1'')"
  let ?r = "fst (createRoom Map.empty ''r1'' 0 ''p1'' ''Asha'' ''1'')"
  have r: "?rs ''r1'' = Some ?r" by (simp add: createRoom_def Let_def)
  have p: "partner2 ?r = None" "userId (partner1 ?r) = ''p1''"
    by (simp_all add: createRoom_def Let_def)
  show ?thesis
    using joinRoom_cases [of ?rs "''r1''" ?r "''p1''" "''Asha''" "''1''"]
      joinRoom_cases [of ?rs "''r1''" ?r "''p2''" "''Ravi''" "''2''"] r p
    by simp
qed

section \<open>Properties of the scoring\<close>

lemma categories_own:
  "q \<in> set QUIZ_QUESTIONS \<Longrightarrow> map_of COMPATIBILITY_MAPS (category q) \<noteq> None"
  by (auto simp: QUIZ_QUESTIONS_def COMPATIBILITY_MAPS_def)

text \<open>
  For a category of the table and a first value that names no inherited property, the
  function returns the score of the specification.
\<close>

lemma calculateQuestionScore_plain:
  assumes "map_of COMPATIBILITY_MAPS cat \<noteq> None" and "answer1 \<notin> set objectPrototypeKeys"
  shows "calculateQuestionScore cat answer1 answer2 = Inr (specScore cat answer1 answer2)"
  using assms
  by (auto simp: calculateQuestionScore_def getProperty_def specScore_def related_def
      split: option.splits)

lemma find_in_set: "find P xs = Some x \<Longrightarrow> x \<in> set xs"
  by (auto simp: find_Some_iff)

lemma scoreLoop_spec:
  assumes "plainAnswers a1" and "set qs \<subseteq> set QUIZ_QUESTIONS"
  shows "scoreLoop qs a1 a2 (t, bd) =
     Inr (t + sum_list (map score (specBreakdown qs a1 a2)), bd @ specBreakdown qs a1 a2)"
  using assms(2)
proof (induction qs arbitrary: t bd)
  case Nil
  then show ?case by (simp add: specBreakdown_def)
next
  case (Cons q qs)
  have qs: "set qs \<subseteq> set QUIZ_QUESTIONS" and q: "q \<in> set QUIZ_QUESTIONS"
    using Cons.prems by auto
  note IH = Cons.IH [OF qs]
  show ?case
  proof (cases "bothAnswered a1 a2 q")
    case False
    then show ?thesis using IH [of t bd]
      by (auto simp: specBreakdown_def bothAnswered_def findAnswer_def split: option.splits)
  next
    case True
    then obtain x y where x: "find (\<lambda>a. questionId a = id_q q) a1 = Some x"
      and y: "find (\<lambda>a. questionId a = id_q q) a2 = Some y"
      by (auto simp: bothAnswered_def findAnswer_def)
    have "x \<in> set a1" using x by (rule find_in_set)
    then have p: "answer x \<notin> set objectPrototypeKeys"
      using assms(1) by (simp add: plainAnswers_def list_all_iff)
    have c: "calculateQuestionScore (category q) (answer x) (answer y) =
        Inr (specScore (category q) (answer x) (answer y))"
      using categories_own [OF q] p by (rule calculateQuestionScore_plain)
    have e: "specBreakdown (q # qs) a1 a2 = specEntry a1 a2 q # specBreakdown qs a1 a2"
      using True by (simp add: specBreakdown_def)
    have s: "specEntry a1 a2 q =
        \<lparr>questionId_m = id_q q, partner1Answer = answer x, partner2Answer = answer y,
         score = specScore (category q) (answer x) (answer y)\<rparr>"
      using x y by (simp add: specEntry_def findAnswer_def Let_def)
    show ?thesis
      unfolding e using x y s c IH by simp
  qed
qed

text \<open>
  When no value of the first array names an inherited property, the match is computed,
  its breakdown is that of the specification and its compatibility the rounded share.
\<close>

lemma computeMatch_spec:
  assumes "plainAnswers a1"
  shows "\<exists>m. computeMatch a1 a2 = Inr m \<and>
           breakdown m = specBreakdown QUIZ_QUESTIONS a1 a2 \<and>
           compatibility m = specPercent (specBreakdown QUIZ_QUESTIONS a1 a2)"
  using scoreLoop_spec [OF assms, of QUIZ_QUESTIONS a2 0 "[]"]
  by (simp add: computeMatch_def specPercent_def Math_round_def Let_def)

lemma specScore_range: "20 \<le> specScore c x y \<and> specScore c x y \<le> 100"
  by (simp add: specScore_def)

lemma sum_scores_bounds:
  "20 * int (length (filter (bothAnswered a1 a2) qs))
     \<le> sum_list (map score (specBreakdown qs a1 a2)) \<and>
   sum_list (map score (specBreakdown qs a1 a2))
     \<le> 100 * int (length (filter (bothAnswered a1 a2) qs))"
proof (induction qs)
  case Nil
  then show ?case by (simp add: specBreakdown_def)
next
  case (Cons q qs)
  have e: "score (specEntry a1 a2 q) =
      specScore (category q) (answer (the (findAnswer a1 (id_q q))))
        (answer (the (findAnswer a2 (id_q q))))"
    by (simp add: specEntry_def Let_def)
  show ?case
  proof (cases "bothAnswered a1 a2 q")
    case True
    then have "specBreakdown (q # qs) a1 a2 = specEntry a1 a2 q # specBreakdown qs a1 a2"
      by (simp add: specBreakdown_def)
    then show ?thesis
      using Cons.IH e specScore_range [of "category q"
          "answer (the (findAnswer a1 (id_q q)))" "answer (the (findAnswer a2 (id_q q)))"] True
      by simp
  next
    case False
    then have "specBreakdown (q # qs) a1 a2 = specBreakdown qs a1 a2"
      by (simp add: specBreakdown_def)
    then show ?thesis using Cons.IH False by simp
  qed
qed

lemma round_percent:
  assumes "120 \<le> t" "t \<le> 600"
  shows "20 \<le> \<lfloor>real_of_int t / real_of_int (int 6 * 100) * 100 + 1 / 2\<rfloor> \<and>
         \<lfloor>real_of_int t / real_of_int (int 6 * 100) * 100 + 1 / 2\<rfloor> \<le> 100"
proof -
  have "real_of_int t / real_of_int (int 6 * 100) * 100 = real_of_int t / 6" by simp
  moreover have "20 \<le> \<lfloor>real_of_int t / 6 + 1 / 2\<rfloor>" using assms by (simp add: le_floor_iff)
  moreover have "\<lfloor>real_of_int t / 6 + 1 / 2\<rfloor> \<le> 100" using assms by (simp add: floor_le_iff)
  ultimately show ?thesis by simp
qed

lemma answersEvery_filter:
  "answersEvery a1 \<Longrightarrow> answersEvery a2 \<Longrightarrow>
   filter (bothAnswered a1 a2) QUIZ_QUESTIONS = QUIZ_QUESTIONS"
  by (simp add: answersEvery_def bothAnswered_def list_all_iff)

lemma complete_percent_range:
  assumes "answersEvery a1" "answersEvery a2"
  shows "20 \<le> specPercent (specBreakdown QUIZ_QUESTIONS a1 a2) \<and>
         specPercent (specBreakdown QUIZ_QUESTIONS a1 a2) \<le> 100"
proof -
  let ?t = "sum_list (map score (specBreakdown QUIZ_QUESTIONS a1 a2))"
  have "120 \<le> ?t \<and> ?t \<le> 600"
    using sum_scores_bounds [of a1 a2 QUIZ_QUESTIONS] answersEvery_filter [OF assms]
    by (simp add: length_QUIZ_QUESTIONS)
  then show ?thesis
    using round_percent [of ?t] by (simp add: specPercent_def length_QUIZ_QUESTIONS)
qed

lemma identical_sum:
  assumes "\<forall>q \<in> set qs. findAnswer a1 (id_q q) \<noteq> None \<and> findAnswer a2 (id_q q) \<noteq> None \<and>
     answer (the (findAnswer a1 (id_q q))) = answer (the (findAnswer a2 (id_q q)))"
  shows "sum_list (map score (specBreakdown qs a1 a2)) = 100 * int (length qs)"
  using assms
  by (induction qs)
     (auto simp: specBreakdown_def bothAnswered_def specEntry_def specScore_def Let_def)

text \<open>
  The loop over the fixed questions never looks up a category that names an inherited
  property.
\<close>

lemma calculateQuestionScore_category:
  "map_of COMPATIBILITY_MAPS cat \<noteq> None \<Longrightarrow>
   calculateQuestionScore cat answer1 answer2 \<noteq> Inl (BuiltinCategory k)"
  by (auto simp: calculateQuestionScore_def getProperty_def split: option.splits property.splits)

lemma scoreLoop_category:
  "set qs \<subseteq> set QUIZ_QUESTIONS \<Longrightarrow> scoreLoop qs a1 a2 (t, bd) \<noteq> Inl (BuiltinCategory k)"
proof (induction qs arbitrary: t bd)
  case Nil
  then show ?case by simp
next
  case (Cons q qs)
  have qs: "set qs \<subseteq> set QUIZ_QUESTIONS" and q: "q \<in> set QUIZ_QUESTIONS"
    using Cons.prems by auto
  show ?case
    using Cons.IH [OF qs] calculateQuestionScore_category [OF categories_own [OF q]]
    by (auto split: option.splits sum.splits)
qed

lemma computeMatch_category: "computeMatch a1 a2 \<noteq> Inl (BuiltinCategory k)"
  using scoreLoop_category [of QUIZ_QUESTIONS a1 a2 0 "[]" k]
  by (auto simp: computeMatch_def Let_def split: sum.splits prod.splits)

text \<open>
  Claim C3 fails on the code. The two example arrays answer all six questions with
  offered options and differ in the mood only. With \<open>Home-cooked\<close> on the first side
  the mood table relates the pair and the result is 93; with the sides swapped the
  table has no entry from \<open>Cozy & Romantic\<close> to \<open>Home-cooked\<close> and the result
  is 87.
\<close>

theorem compatibility_not_symmetric:
  "map_sum id compatibility (computeMatch exampleAnswers1 exampleAnswers2) = Inr 93 \<and>
   map_sum id compatibility (computeMatch exampleAnswers2 exampleAnswers1) = Inr 87"
  by (simp add: exampleAnswers1_def exampleAnswers2_def computeMatch_def QUIZ_QUESTIONS_def
      calculateQuestionScore_def getProperty_def objectPrototypeKeys_def COMPATIBILITY_MAPS_def
      Math_round_def rupee_def Let_def)

text \<open>
  Claim C8 fails on the code. The first partner's answer to the cuisine question is the
  free text \<open>constructor\<close>, the second partner's is \<open>Chinese\<close>. The values differ
  and the cuisine table has no row for \<open>constructor\<close>, so the claim gives the pair the
  score 20, as the code does with the sides swapped. With \<open>constructor\<close> on the first
  side the lookup finds the property that the table inherits, the call of
  \<open>includes\<close> throws, and \<open>calculate_match\<close> has no score for the question and no
  percentage; the claim gives the complete arrays the percentage 87.
\<close>

theorem inherited_answer_has_no_score:
  "specScore ''cuisine'' ''constructor'' ''Chinese'' = 20 \<and>
   calculateQuestionScore ''cuisine'' ''Chinese'' ''constructor'' = Inr 20 \<and>
   calculateQuestionScore ''cuisine'' ''constructor'' ''Chinese'' =
     Inl (TypeError ''compatibles.includes is not a function'') \<and>
   specPercent (specBreakdown QUIZ_QUESTIONS constructorAnswers exampleAnswers1) = 87 \<and>
   map_sum id compatibility (computeMatch exampleAnswers1 constructorAnswers) = Inr 87 \<and>
   computeMatch constructorAnswers exampleAnswers1 =
     Inl (TypeError ''compatibles.includes is not a function'')"
  by (simp add: specScore_def related_def specPercent_def specBreakdown_def specEntry_def
      bothAnswered_def findAnswer_def constructorAnswers_def exampleAnswers1_def computeMatch_def
      QUIZ_QUESTIONS_def calculateQuestionScore_def getProperty_def objectPrototypeKeys_def
      COMPATIBILITY_MAPS_def Math_round_def rupee_def Let_def)

text \<open>
  On arrays whose first side is free of such values the code agrees with the claim: the
  breakdown has one entry per fixed question both sides answered, with the score 100, 60
  or 20 of the specification; the compatibility is the share of the score sum in
  question count times 100, rounded to the nearest integer; and complete arrays whose
  answers to every question are identical have the compatibility 100.
\<close>

lemma computeMatch_plain:
  assumes "plainAnswers a1"
  shows "\<exists>m. computeMatch a1 a2 = Inr m \<and>
           breakdown m = specBreakdown QUIZ_QUESTIONS a1 a2 \<and>
           compatibility m = specPercent (breakdown m) \<and>
           (answersEvery a1 \<and> answersEvery a2 \<and>
            (\<forall>q \<in> set QUIZ_QUESTIONS.
                answer (the (findAnswer a1 (id_q q))) = answer (the (findAnswer a2 (id_q q)))) \<longrightarrow>
            compatibility m = 100)"
proof -
  obtain m where m: "computeMatch a1 a2 = Inr m"
    "breakdown m = specBreakdown QUIZ_QUESTIONS a1 a2"
    "compatibility m = specPercent (specBreakdown QUIZ_QUESTIONS a1 a2)"
    using computeMatch_spec [OF assms] by blast
  have "compatibility m = 100"
    if e: "answersEvery a1" "answersEvery a2"
      and i: "\<forall>q \<in> set QUIZ_QUESTIONS.
        answer (the (findAnswer a1 (id_q q))) = answer (the (findAnswer a2 (id_q q)))"
  proof -
    have "sum_list (map score (specBreakdown QUIZ_QUESTIONS a1 a2)) =
        100 * int (length QUIZ_QUESTIONS)"
      using e i by (intro identical_sum) (auto simp: answersEvery_def list_all_iff)
    then show ?thesis
      by (simp add: m specPercent_def length_QUIZ_QUESTIONS)
  qed
  then show ?thesis using m by simp
qed

text \<open>
  For an array built by successful submit calls from the empty array, \<open>isComplete\<close>
  means that the array answers every fixed question.
\<close>

lemma built_complete_answersEvery:
  assumes "submitAll [] calls = Some a" "isComplete a"
  shows "answersEvery a"
proof -
  from submitAll_success [OF assms(1)]
  have d: "distinct (map fst calls)"
    and v: "set (map fst calls) \<subseteq> set (map id_q QUIZ_QUESTIONS)"
    by auto
  have "submitAll [] calls =
      Some ([] @ map (\<lambda>(qid, ans). \<lparr>questionId = qid, answer = ans\<rparr>) calls)"
    using d v by (intro submitAll_distinct) auto
  then have m: "map questionId a = map fst calls"
    using assms(1) by (auto simp: comp_def case_prod_beta)
  have "length (map fst calls) \<ge> length QUIZ_QUESTIONS"
    using assms(2) m by (metis isComplete_def length_map)
  then have "set (map questionId a) = set (map id_q QUIZ_QUESTIONS)"
    using distinct_subset_full [OF d v] m by simp
  then have "\<forall>q \<in> set QUIZ_QUESTIONS. \<exists>x \<in> set a. questionId x = id_q q"
    by (auto simp: image_iff) (metis imageE image_eqI)
  then show ?thesis
    by (auto simp: answersEvery_def list_all_iff findAnswer_def find_None_iff)
qed

text \<open>
  When the room has both partners, both are marked complete, both answer arrays answer
  all six fixed questions and no value of the first partner names an inherited property,
  \<open>calculate_match\<close> returns a result, the compatibility of the result lies between
  20 and 100, and the room holds that same result in \<open>matchResult\<close> afterwards, with
  nothing else changed.
\<close>

lemma calculateMatch_plain:
  assumes "rs rid = Some r" and "partner2 r = Some p2"
    and "quizComplete (partner1 r)" and "quizComplete p2"
    and "answersEvery (quizAnswers (partner1 r))" and "answersEvery (quizAnswers p2)"
    and "plainAnswers (quizAnswers (partner1 r))"
  shows "\<exists>m. calculateMatch rs rid = (Returned m, rs(rid \<mapsto> r\<lparr>matchResult := Some m\<rparr>)) \<and>
             20 \<le> compatibility m \<and> compatibility m \<le> 100"
proof -
  obtain m where m: "computeMatch (quizAnswers (partner1 r)) (quizAnswers p2) = Inr m"
    "compatibility m =
       specPercent (specBreakdown QUIZ_QUESTIONS (quizAnswers (partner1 r)) (quizAnswers p2))"
    using computeMatch_spec [OF assms(7)] by blast
  show ?thesis
    using assms(1-4) m complete_percent_range [OF assms(5,6)]
    by (simp add: calculateMatch_def getRoom_def)
qed

section \<open>Properties of the server\<close>

subsection \<open>The chosen action\<close>

lemma rooms_sendToClient [simp]: "rooms (sendToClient w m s) = rooms s"
  by (simp add: sendToClient_def)

lemma rooms_broadcastToRoom [simp]: "rooms (broadcastToRoom rid m s) = rooms s"
  by (simp add: broadcastToRoom_def split: option.splits)

lemma rooms_broadcastToRoomExcept [simp]: "rooms (broadcastToRoomExcept rid u m s) = rooms s"
  by (simp add: broadcastToRoomExcept_def split: option.splits)

lemma rooms_sendToUser [simp]: "rooms (sendToUser rid u m s) = rooms s"
  by (simp add: sendToUser_def split: option.splits)

lemma rooms_spawn [simp]: "rooms (spawn t s) = rooms s"
  by (simp add: spawn_def)

lemma rooms_finish [simp]: "rooms (finish t s) = rooms s"
  by (simp add: finish_def)

lemma chosenOf_setPartner [simp]:
  "chosenOf (rs(rid' \<mapsto> setPartner r sl p)) rid = chosenOf (rs(rid' \<mapsto> r)) rid"
  by (cases sl) (simp_all add: chosenOf_def setPartner_def)








lemma rooms_connectAndInjectTools_begin:
  "connectAndInjectTools_begin rid a uid w msg k s = Some s' \<Longrightarrow> rooms s' = rooms s"
  by (auto simp: connectAndInjectTools_begin_def split: option.splits)

lemma rooms_connectAndInjectTools_end [simp]:
  "rooms (connectAndInjectTools_end rid res s) = rooms s"
  by (simp add: connectAndInjectTools_end_def split: option.splits)

lemma rooms_afterAuthUrl [simp]: "rooms (afterAuthUrl rid uid w msg res s) = rooms s"
  by (simp add: afterAuthUrl_def split: option.splits)

lemma rooms_startAgent [simp]: "rooms (startAgent rid uid w s) = rooms s"
  by (simp add: startAgent_def Let_def)

lemma rooms_agentResponse [simp]: "rooms (agentResponse rid w pa msg s) = rooms s"
  by (simp add: agentResponse_def)

lemma rooms_catchError [simp]: "rooms (catchError w s) = rooms s"
  by (simp add: catchError_def)

lemma rooms_afterAgent [simp]: "rooms (afterAgent rid w s) = rooms s"
  by (simp add: afterAgent_def Let_def split: option.splits)

lemma snd_calculateMatch_throw:
  "calculateMatch rs rid = (Threw e, rs') \<Longrightarrow> rs' = rs"
  "calculateMatch rs rid = (ReturnedError e', rs') \<Longrightarrow> rs' = rs"
  by (auto simp: calculateMatch_def Let_def split: option.splits if_splits sum.splits)

lemma rooms_afterCalc: "rooms (afterCalc rid w s) = snd (calculateMatch (rooms s) rid)"
  by (auto simp: afterCalc_def sendPersonalizedReveal_def Let_def
      dest: snd_calculateMatch_throw
      split: option.splits prod.splits match_outcome.splits)

lemma rooms_onConnection [simp]: "rooms (onConnection rid uid w s) = rooms s"
  by (simp add: onConnection_def Let_def split: option.splits)

lemma rooms_onClose [simp]: "rooms (onClose rid uid w s) = rooms s"
  by (simp add: onClose_def Let_def split: option.splits)







lemma run_append: "run (es @ es') s = run es' (run es s)"
  by (induction es arbitrary: s) simp_all



text \<open>
  A text that names an inherited property is such a message as well: on a room without a
  chosen action it stores the inherited value as the room's action, and the partner's
  later proposal to order in is answered with the label \<open>undefined\<close>.
\<close>

lemma inherited_text_locks_room:
  "chosenOf (rooms (run inheritedLock init)) ''r1'' =
     Some (Some (InheritedValue ''constructor''), Some ''p1'') \<and>
   last (sent (run (inheritedLock @ [Message ''r1'' ''p2'' 2 ''Let's order in!'']) init)) =
     SendToClient 2 (AgentMessage ''Your partner already chose undefined! Let's go with that.'')"
  by code_simp

text \<open>
  When \<open>createRoom\<close> draws the id of a room again, the id names a new room, which has
  no chosen action.
\<close>

lemma createRoom_replaces_room:
  "chosenOf (rooms (run (lockRun @ [Message ''r1'' ''p1'' 1 ''Let's order in!'',
       CreateRoom ''r1'' 5 ''p3'' ''Mira'' ''3'']) init)) ''r1'' = Some (None, None)"
  by code_simp

text \<open>
  Claim C5 fails on the code. In \<open>failedAuthRun\<close> the room has no tokens, the first
  partner proposes to order in and the request for the authorization URL fails. Before
  the proposal the room has no chosen action and no chooser; after the failure it is
  locked to the proposal, and the requester has been sent the error that asks to try
  again. Trying again only yields the message that the action is already chosen, and no
  authorization is requested.
\<close>

theorem failed_authorization_keeps_lock:
  "chosenOf (rooms (run lockRun init)) ''r1'' = Some (None, None) \<and>
   chosenOf (rooms (run failedAuthRun init)) ''r1'' = Some (Some (Action Delivery), Some ''p1'') \<and>
   last (sent (run failedAuthRun init)) =
     SendToClient 1 (ErrorMsg ''Failed to start Swiggy authentication. Please try again.'') \<and>
   sent (run (failedAuthRun @ [Message ''r1'' ''p1'' 1 ''Let's order in!'']) init) =
     sent (run failedAuthRun init) @
     [SendToClient 1 (AgentMessage ''Your partner already chose Order In! Let's go with that.'')] \<and>
   tasks (run (failedAuthRun @ [Message ''r1'' ''p1'' 1 ''Let's order in!'']) init) = []"
  by code_simp

subsection \<open>The tool array\<close>

text \<open>
  Claim C1 fails on the code. In \<open>toolsRun\<close> two rooms authorize and the discovery
  returns a tool named \<open>search_restaurants\<close> for each; \<open>connectAndInjectTools\<close>
  pushes both, and the tool array holds two entries of that name.
\<close>

theorem agentTools_duplicate_name:
  "filter (\<lambda>t. name_t t = ''search_restaurants'') (agentTools (run toolsRun init)) =
     [\<lparr>name_t = ''search_restaurants'', description_t = ''for room rA''\<rparr>,
      \<lparr>name_t = ''search_restaurants'', description_t = ''for room rB''\<rparr>]"
  by code_simp

subsection \<open>The match result broadcast\<close>

lemma pot_sendToClient [simp]: "revealPotential rid (sendToClient w m s) = revealPotential rid s"
  by (simp add: revealPotential_def matchBroadcasts_def pendingCalcs_def sendToClient_def)

lemma pot_broadcastToRoomExcept [simp]:
  "revealPotential rid (broadcastToRoomExcept rid' u m s) = revealPotential rid s"
  by (simp add: revealPotential_def matchBroadcasts_def pendingCalcs_def broadcastToRoomExcept_def
      split: option.splits)

lemma pot_sendToUser [simp]: "revealPotential rid (sendToUser rid' u m s) = revealPotential rid s"
  by (simp add: revealPotential_def matchBroadcasts_def pendingCalcs_def sendToUser_def
      split: option.splits)

lemma pot_broadcastToRoom_other:
  "\<not> isMatchResultMsg m \<or> rid' \<noteq> rid \<Longrightarrow>
   revealPotential rid (broadcastToRoom rid' m s) = revealPotential rid s"
  by (cases m)
     (auto simp: revealPotential_def matchBroadcasts_def pendingCalcs_def broadcastToRoom_def
        split: option.splits)

lemma pot_broadcastToRoom_le:
  "revealPotential rid (broadcastToRoom rid' m s) \<le> revealPotential rid s + 1"
  by (auto simp: revealPotential_def matchBroadcasts_def pendingCalcs_def broadcastToRoom_def
        split: option.splits)

lemma pot_catchError [simp]: "revealPotential rid (catchError w s) = revealPotential rid s"
  by (simp add: catchError_def)

lemma pot_spawn:
  "\<not> isCalcOf rid t \<Longrightarrow> revealPotential rid (spawn t s) = revealPotential rid s"
  by (simp add: revealPotential_def matchBroadcasts_def pendingCalcs_def spawn_def)

lemma filter_remove1_other: "\<not> P t \<Longrightarrow> filter P (remove1 t xs) = filter P xs"
  by (induction xs) auto

lemma length_filter_remove1_same:
  "P x \<Longrightarrow> x \<in> set xs \<Longrightarrow> length (filter P xs) = Suc (length (filter P (remove1 x xs)))"
  by (induction xs) auto

lemma pot_finish:
  "\<not> isCalcOf rid t \<Longrightarrow> revealPotential rid (finish t s) = revealPotential rid s"
  by (simp add: revealPotential_def matchBroadcasts_def pendingCalcs_def finish_def
      filter_remove1_other)

lemma pot_finish_calc:
  "AwaitCalc rid w \<in> set (tasks s) \<Longrightarrow>
   revealPotential rid (finish (AwaitCalc rid w) s) = revealPotential rid s - 1"
  using length_filter_remove1_same [of "isCalcOf rid" "AwaitCalc rid w" "tasks s"]
  by (simp add: revealPotential_def matchBroadcasts_def pendingCalcs_def finish_def)

lemma pot_rooms [simp]: "revealPotential rid (s\<lparr>rooms := x\<rparr>) = revealPotential rid s"
  by (simp add: revealPotential_def matchBroadcasts_def pendingCalcs_def)

lemma pot_pendingActions [simp]:
  "revealPotential rid (s\<lparr>pendingActions := x\<rparr>) = revealPotential rid s"
  by (simp add: revealPotential_def matchBroadcasts_def pendingCalcs_def)

lemma pot_roomAuthStore [simp]:
  "revealPotential rid (s\<lparr>roomAuthStore := x\<rparr>) = revealPotential rid s"
  by (simp add: revealPotential_def matchBroadcasts_def pendingCalcs_def)

lemma pot_agentTools [simp]: "revealPotential rid (s\<lparr>agentTools := x\<rparr>) = revealPotential rid s"
  by (simp add: revealPotential_def matchBroadcasts_def pendingCalcs_def)

lemma pot_roomConnections [simp]:
  "revealPotential rid (s\<lparr>roomConnections := x\<rparr>) = revealPotential rid s"
  by (simp add: revealPotential_def matchBroadcasts_def pendingCalcs_def)

lemma pot_connect_begin:
  "connectAndInjectTools_begin rid' a uid w msg k s = Some s' \<Longrightarrow>
   revealPotential rid s' = revealPotential rid s"
  by (auto simp: connectAndInjectTools_begin_def pot_spawn split: option.splits)

lemma pot_connect_end [simp]:
  "revealPotential rid (connectAndInjectTools_end rid' res s) = revealPotential rid s"
  by (simp add: connectAndInjectTools_end_def pot_broadcastToRoom_other split: option.splits)

lemma pot_processMessage [simp]:
  "revealPotential rid (processMessage rid' uid w msg s) = revealPotential rid s"
  by (auto simp: processMessage_def Let_def pot_spawn pot_broadcastToRoom_other
      dest!: pot_connect_begin split: option.splits)

lemma pot_afterAuthUrl [simp]:
  "revealPotential rid (afterAuthUrl rid' uid w msg res s) = revealPotential rid s"
  by (simp add: afterAuthUrl_def pot_broadcastToRoom_other split: option.splits)

lemma pot_startAgent [simp]: "revealPotential rid (startAgent rid' uid w s) = revealPotential rid s"
  by (simp add: startAgent_def Let_def pot_spawn)

lemma pot_agentResponse [simp]:
  "revealPotential rid (agentResponse rid' w pa msg s) = revealPotential rid s"
  by (simp add: agentResponse_def pot_broadcastToRoom_other)

lemma pot_notify [simp]:
  "revealPotential rid (notifyAuthCompleteForRoom rid' s) = revealPotential rid s"
  by (auto simp: notifyAuthCompleteForRoom_def Let_def pot_broadcastToRoom_other
      dest!: pot_connect_begin split: option.splits prod.splits)

lemma pot_onConnection [simp]:
  "revealPotential rid (onConnection rid' uid w s) = revealPotential rid s"
  by (simp add: onConnection_def Let_def split: option.splits)

lemma matchSent_broadcastToRoom [simp]: "matchSent (broadcastToRoom rid m s) = matchSent s"
  by (simp add: broadcastToRoom_def split: option.splits)

lemma pot_matchSent:
  "revealPotential rid (s\<lparr>matchSent := M\<rparr>) =
     revealPotential rid s + (if rid \<in> matchSent s then 1 else 0) - (if rid \<in> M then 1 else 0)"
  by (simp add: revealPotential_def matchBroadcasts_def pendingCalcs_def)

lemma pot_spawn_calc:
  "revealPotential rid (spawn (AwaitCalc rid w) s) = revealPotential rid s + 1"
  by (simp add: revealPotential_def matchBroadcasts_def pendingCalcs_def spawn_def)

lemma pot_afterAgent [simp]: "revealPotential rid (afterAgent rid' w s) = revealPotential rid s"
proof (cases "rid' = rid")
  case False
  then show ?thesis
    by (auto simp: afterAgent_def Let_def pot_spawn pot_broadcastToRoom_other pot_matchSent
        split: option.splits)
next
  case True
  then show ?thesis
    by (auto simp: afterAgent_def Let_def pot_spawn_calc pot_broadcastToRoom_other pot_matchSent
        split: option.splits)
qed

lemma pot_broadcastToRoom_rooms_le:
  "revealPotential rid (broadcastToRoom rid' m (s\<lparr>rooms := x\<rparr>)) \<le> revealPotential rid s + 1"
  using pot_broadcastToRoom_le [of rid rid' m "s\<lparr>rooms := x\<rparr>"] by simp

lemma pot_afterCalc: "revealPotential rid (afterCalc rid' w s) \<le> revealPotential rid s + 1"
  by (auto simp: afterCalc_def sendPersonalizedReveal_def Let_def pot_broadcastToRoom_rooms_le
      split: option.splits prod.splits match_outcome.splits)

lemma pot_afterCalc_other:
  "rid' \<noteq> rid \<Longrightarrow> revealPotential rid (afterCalc rid' w s) = revealPotential rid s"
  by (auto simp: afterCalc_def sendPersonalizedReveal_def Let_def pot_broadcastToRoom_other
      split: option.splits prod.splits match_outcome.splits)

lemma pot_onClose:
  "revealPotential rid (onClose rid' uid w s) \<le>
     revealPotential rid s + (if clearsRoom rid (Close rid' uid w) s then 1 else 0)"
  by (auto simp: onClose_def clearsRoom_def Let_def revealPotential_def matchBroadcasts_def
      pendingCalcs_def split: option.splits)

lemma clearsRoom_not_close [simp]:
  "clearsRoom rid (CreateRoom a b c d e) s = False"
  "clearsRoom rid (JoinRoom a c d e) s = False"
  "clearsRoom rid (Connection a c n) s = False"
  "clearsRoom rid (Message a c n d) s = False"
  "clearsRoom rid (AuthCallback a so) s = False"
  "clearsRoom rid (AuthUrlReturned a c n d so) s = False"
  "clearsRoom rid (ConnectReturned a act c n d k ts) s = False"
  "clearsRoom rid (SessionReady a c n d) s = False"
  "clearsRoom rid (AgentResponse a c n pa d) s = False"
  "clearsRoom rid (ToolCall a c tc) s = False"
  "clearsRoom rid (AgentFinished a c n pa) s = False"
  "clearsRoom rid (AgentFailed a c n pa) s = False"
  "clearsRoom rid (MatchCalculated a n) s = False"
  "clearsRoom rid (MatchFailed a n) s = False"
  by (simp_all add: clearsRoom_def)

lemma step_potential:
  "revealPotential rid (step e s) \<le>
     revealPotential rid s + (if clearsRoom rid e s then 1 else 0)"
proof (cases e)
  case (Close rid' uid w)
  then show ?thesis using pot_onClose [of rid rid' uid w s] by simp
next
  case (MatchCalculated rid' w)
  show ?thesis
  proof (cases "rid' = rid")
    case True
    then show ?thesis
      using MatchCalculated pot_afterCalc [of rid rid w "finish (AwaitCalc rid w) s"]
        pot_finish_calc [of rid w s]
      by auto
  next
    case False
    then show ?thesis using MatchCalculated by (simp add: pot_afterCalc_other pot_finish)
  qed
next
  case (MatchFailed rid' w)
  show ?thesis
  proof (cases "rid' = rid")
    case True
    then show ?thesis using MatchFailed pot_finish_calc [of rid w s] by auto
  next
    case False
    then show ?thesis using MatchFailed by (simp add: pot_finish)
  qed
next
  case (ConnectReturned rid' a uid w msg k res)
  then show ?thesis by (cases k) (simp_all add: pot_finish pot_spawn)
qed (simp_all add: pot_finish pot_spawn split: option.splits)

lemma run_potential:
  "revealPotential rid (run es s) \<le> revealPotential rid s + int (clearings rid es s)"
proof (induction es arbitrary: s)
  case Nil
  then show ?case by simp
next
  case (Cons e es)
  have "revealPotential rid (run es (step e s)) \<le>
      revealPotential rid (step e s) + int (clearings rid es (step e s))"
    by (rule Cons.IH)
  then show ?case using step_potential [of rid e s] by (auto split: if_splits)
qed

text \<open>
  Claim C4, as stated, in a run from the start of the server: after the reveal of
  \<open>quizRun\<close> both sockets close, which clears the room's \<open>matchSent\<close> entry; the
  partners connect again, one of them writes, and the match result is broadcast a second
  time.
\<close>

theorem match_result_twice_counterexample:
  "matchBroadcasts ''r1'' (run (quizRun @ reconnectRun) init) = 2"
  by code_simp

text \<open>
  Two runs of the agent for a room are in progress, both partners are complete, the room
  has connections, is not in \<open>matchSent\<close> and has no calculation under way: when both
  runs end and the calculation has run, one more \<open>match_result\<close> broadcast has been
  sent if the calculation returned a result and none if it threw, and no calculation is
  left.
\<close>

lemma afterAgent_complete:
  assumes "rooms s rid = Some r" and "partner2 r = Some p2"
    and "quizComplete (partner1 r)" and "quizComplete p2"
    and "roomConnections s rid = Some conns"
  shows "afterAgent rid w s =
     (if rid \<in> matchSent s
      then s\<lparr>sent := sent s @ [BroadcastToRoom rid (QuizUpdate True True) (map snd conns)]\<rparr>
      else s\<lparr>sent := sent s @ [BroadcastToRoom rid (QuizUpdate True True) (map snd conns)],
             matchSent := insert rid (matchSent s),
             tasks := tasks s @ [AwaitCalc rid w]\<rparr>)"
  using assms
  by (simp add: afterAgent_def getRoom_def Let_def broadcastToRoom_def spawn_def)

lemma afterCalc_complete:
  assumes "rooms s rid = Some r" and "partner2 r = Some p2"
    and "quizComplete (partner1 r)" and "quizComplete p2"
    and "roomConnections s rid = Some conns"
  shows "matchBroadcasts rid (afterCalc rid w s) =
     matchBroadcasts rid s + (if calcReturns (rooms s) rid then 1 else 0)"
proof (cases "computeMatch (quizAnswers (partner1 r)) (quizAnswers p2)")
  case (Inl e)
  then have "calculateMatch (rooms s) rid = (Threw e, rooms s)"
    using assms by (simp add: calculateMatch_def getRoom_def)
  then show ?thesis
    by (simp add: afterCalc_def calcReturns_def catchError_def sendToClient_def
        matchBroadcasts_def)
next
  case (Inr m)
  then have "calculateMatch (rooms s) rid =
      (Returned m, (rooms s)(rid \<mapsto> r\<lparr>matchResult := Some m\<rparr>))"
    using assms by (simp add: calculateMatch_def getRoom_def)
  then show ?thesis using assms
    by (simp add: afterCalc_def calcReturns_def getRoom_def Let_def broadcastToRoom_def
        sendPersonalizedReveal_def sendToUser_def matchBroadcasts_def)
qed

lemma pendingCalcs_afterCalc: "pendingCalcs rid (afterCalc rid' w s) = pendingCalcs rid s"
  by (simp add: afterCalc_def sendPersonalizedReveal_def sendToUser_def broadcastToRoom_def
      catchError_def sendToClient_def pendingCalcs_def Let_def
      split: option.splits prod.splits match_outcome.splits)

lemma concurrent_completion_once:
  assumes r: "rooms s rid = Some r" "partner2 r = Some p2"
      "quizComplete (partner1 r)" "quizComplete p2"
    and c: "roomConnections s rid = Some conns"
    and f: "rid \<notin> matchSent s" "pendingCalcs rid s = 0"
    and t1: "AgentRun rid u1 w1 pa1 \<in> set (tasks s)"
    and t2: "AgentRun rid u2 w2 pa2 \<in> set (remove1 (AgentRun rid u1 w1 pa1) (tasks s))"
  shows "matchBroadcasts rid
           (run [AgentFinished rid u1 w1 pa1, AgentFinished rid u2 w2 pa2,
                 MatchCalculated rid w1] s)
         = matchBroadcasts rid s + (if calcReturns (rooms s) rid then 1 else 0) \<and>
         pendingCalcs rid
           (run [AgentFinished rid u1 w1 pa1, AgentFinished rid u2 w2 pa2,
                 MatchCalculated rid w1] s)
         = 0"
proof -
  define a where "a = finish (AgentRun rid u1 w1 pa1) s"
  define S1 where "S1 = afterAgent rid w1 a"
  define b where "b = finish (AgentRun rid u2 w2 pa2) S1"
  define S2 where "S2 = afterAgent rid w2 b"
  define c where "c = finish (AwaitCalc rid w1) S2"
  define S3 where "S3 = afterCalc rid w1 c"
  let ?rest = "remove1 (AgentRun rid u2 w2 pa2) (remove1 (AgentRun rid u1 w1 pa1) (tasks s))"
  have a: "rooms a = rooms s" "roomConnections a = roomConnections s"
    "matchSent a = matchSent s" "sent a = sent s"
    "tasks a = remove1 (AgentRun rid u1 w1 pa1) (tasks s)"
    by (simp_all add: a_def finish_def)
  have S1: "rooms S1 = rooms s" "roomConnections S1 = roomConnections s"
    "matchSent S1 = insert rid (matchSent s)"
    "sent S1 = sent s @ [BroadcastToRoom rid (QuizUpdate True True) (map snd conns)]"
    "tasks S1 = remove1 (AgentRun rid u1 w1 pa1) (tasks s) @ [AwaitCalc rid w1]"
    using afterAgent_complete [of a rid r p2 conns w1] r c f a by (simp_all add: S1_def)
  have b: "rooms b = rooms s" "roomConnections b = roomConnections s"
    "matchSent b = insert rid (matchSent s)" "sent b = sent S1"
    "tasks b = remove1 (AgentRun rid u2 w2 pa2) (tasks S1)"
    using S1 by (simp_all add: b_def finish_def)
  have S2: "rooms S2 = rooms s" "roomConnections S2 = roomConnections s"
    "sent S2 = sent S1 @ [BroadcastToRoom rid (QuizUpdate True True) (map snd conns)]"
    "tasks S2 = remove1 (AgentRun rid u2 w2 pa2) (tasks S1)"
    using afterAgent_complete [of b rid r p2 conns w2] r c b by (simp_all add: S2_def)
  have in2: "AgentRun rid u2 w2 pa2 \<in> set (tasks S1)" using t2 S1 by simp
  have tS2: "tasks S2 = ?rest @ [AwaitCalc rid w1]"
    using t2 by (simp add: S2 S1 remove1_append)
  have in3: "AwaitCalc rid w1 \<in> set (tasks S2)" by (simp add: tS2)
  have cf: "rooms c = rooms s" "roomConnections c = roomConnections s" "sent c = sent S2"
    "tasks c = remove1 (AwaitCalc rid w1) (tasks S2)"
    using S2 by (simp_all add: c_def finish_def)
  have m: "matchBroadcasts rid S3 =
      matchBroadcasts rid c + (if calcReturns (rooms s) rid then 1 else 0)"
    unfolding S3_def using afterCalc_complete [of c rid r p2 conns w1] r c cf by simp
  have mc: "matchBroadcasts rid c = matchBroadcasts rid s"
    by (simp add: matchBroadcasts_def cf S2 S1)
  have pc: "pendingCalcs rid S3 = pendingCalcs rid c"
    unfolding S3_def by (rule pendingCalcs_afterCalc)
  have z: "filter (isCalcOf rid) (tasks s) = []" using f(2) by (simp add: pendingCalcs_def)
  have zr: "filter (isCalcOf rid) ?rest = []"
    using z by (simp add: filter_remove1_other)
  have "AwaitCalc rid w1 \<notin> set (tasks s)"
    using z by (auto simp: filter_empty_conv)
  then have n: "AwaitCalc rid w1 \<notin> set ?rest"
    by (meson notin_set_remove1)
  have "remove1 (AwaitCalc rid w1) (tasks S2) = ?rest"
    using n by (simp add: tS2 remove1_append)
  then have p0: "pendingCalcs rid c = 0"
    using zr by (simp add: pendingCalcs_def cf)
  have e: "run [AgentFinished rid u1 w1 pa1, AgentFinished rid u2 w2 pa2,
                MatchCalculated rid w1] s = S3"
    using t1 in2 [unfolded S1_def a_def] in3 [unfolded S2_def b_def S1_def a_def]
    by (simp add: S3_def c_def S2_def b_def S1_def a_def)
  show ?thesis unfolding e using m mc pc p0 by simp
qed

text \<open>
  Claim C4, amended. In every run from the start of the server, whatever the order of
  the events, the number of \<open>match_result\<close> broadcasts to a room is at most one more
  than the number of times a close handler emptied the room's connection list and
  cleared its \<open>matchSent\<close> entry; so as long as that has not happened, at most one
  \<open>match_result\<close> broadcast is sent. And when two message-processing events of a
  room, both in progress at once, end with both partners complete and the room not yet
  in \<open>matchSent\<close>, the match is calculated once: exactly one \<open>match_result\<close>
  broadcast follows if the calculation returns a result, none if it throws, and never
  two.
\<close>

theorem match_result_bounded_by_clearings:
  "matchBroadcasts rid (run es init) \<le> 1 + clearings rid es init \<and>
   (clearings rid es init = 0 \<longrightarrow> matchBroadcasts rid (run es init) \<le> 1) \<and>
   (rooms s rid = Some r \<and> partner2 r = Some p2 \<and>
    quizComplete (partner1 r) \<and> quizComplete p2 \<and>
    roomConnections s rid = Some conns \<and>
    rid \<notin> matchSent s \<and> pendingCalcs rid s = 0 \<and>
    AgentRun rid u1 w1 pa1 \<in> set (tasks s) \<and>
    AgentRun rid u2 w2 pa2 \<in> set (remove1 (AgentRun rid u1 w1 pa1) (tasks s)) \<longrightarrow>
    matchBroadcasts rid
      (run [AgentFinished rid u1 w1 pa1, AgentFinished rid u2 w2 pa2,
            MatchCalculated rid w1] s)
    = matchBroadcasts rid s + (if calcReturns (rooms s) rid then 1 else 0))"
proof -
  have "revealPotential rid init = 0"
    by (simp add: revealPotential_def matchBroadcasts_def pendingCalcs_def init_def)
  then have "revealPotential rid (run es init) \<le> int (clearings rid es init)"
    using run_potential [of rid es init] by simp
  then have "matchBroadcasts rid (run es init) \<le> 1 + clearings rid es init"
    by (simp add: revealPotential_def split: if_splits)
  then show ?thesis using concurrent_completion_once [of s rid r p2 conns u1 w1 pa1 u2 w2 pa2]
    by simp
qed

text \<open>
  In \<open>quizRun\<close> the two runs of the agent overlap, both end after both partners are
  complete, no connection closes, the calculation returns a result, and exactly one
  \<open>match_result\<close> broadcast is sent. In \<open>constructorRun\<close> the calculation throws
  and no \<open>match_result\<close> broadcast is sent.
\<close>

theorem match_result_bounded_by_clearings_witness:
  "clearings ''r1'' quizRun init = 0 \<and>
   matchBroadcasts ''r1'' (run quizStart init) = 0 \<and>
   calcReturns (rooms (run quizStart init)) ''r1'' \<and>
   matchBroadcasts ''r1'' (run quizRun init) \<le> 1 \<and>
   matchBroadcasts ''r1'' (run quizRun init) = 1 \<and>
   \<not> calcReturns (rooms (run constructorStart init)) ''r1'' \<and>
   matchBroadcasts ''r1'' (run constructorRun init) = 0"
proof -
  let ?s = "run quizStart init"
  let ?t = "run constructorStart init"
  have c: "clearings ''r1'' quizRun init = 0" by code_simp
  have z: "matchBroadcasts ''r1'' ?s = 0" by code_simp
  have y: "calcReturns (rooms ?s) ''r1''" by code_simp
  have h1: "rooms ?s ''r1'' = Some (the (rooms ?s ''r1''))" by code_simp
  have h2: "partner2 (the (rooms ?s ''r1'')) = Some (the (partner2 (the (rooms ?s ''r1''))))"
    by code_simp
  have h3: "quizComplete (partner1 (the (rooms ?s ''r1'')))"
    "quizComplete (the (partner2 (the (rooms ?s ''r1''))))"
    by code_simp+
  have h4: "roomConnections ?s ''r1'' = Some (the (roomConnections ?s ''r1''))" by code_simp
  have h5: "''r1'' \<notin> matchSent ?s" "pendingCalcs ''r1'' ?s = 0" by code_simp+
  have h6: "AgentRun ''r1'' ''p1'' 1 False \<in> set (tasks ?s)"
    "AgentRun ''r1'' ''p2'' 2 False \<in> set (remove1 (AgentRun ''r1'' ''p1'' 1 False) (tasks ?s))"
    by code_simp+
  note T = match_result_bounded_by_clearings [of "''r1''" quizRun ?s "the (rooms ?s ''r1'')"
      "the (partner2 (the (rooms ?s ''r1'')))" "the (roomConnections ?s ''r1'')"
      "''p1''" 1 False "''p2''" 2 False]
  have b: "matchBroadcasts ''r1'' (run quizRun init) \<le> 1" using T c by blast
  have "matchBroadcasts ''r1''
      (run [AgentFinished ''r1'' ''p1'' 1 False, AgentFinished ''r1'' ''p2'' 2 False,
            MatchCalculated ''r1'' 1] ?s) =
      matchBroadcasts ''r1'' ?s + (if calcReturns (rooms ?s) ''r1'' then 1 else 0)"
    using T h1 h2 h3 h4 h5 h6 by blast
  then have o: "matchBroadcasts ''r1'' (run quizRun init) = 1"
    using z y by (simp add: quizRun_def run_append)
  have k1: "rooms ?t ''r1'' = Some (the (rooms ?t ''r1''))" by code_simp
  have k2: "partner2 (the (rooms ?t ''r1'')) = Some (the (partner2 (the (rooms ?t ''r1''))))"
    by code_simp
  have k3: "quizComplete (partner1 (the (rooms ?t ''r1'')))"
    "quizComplete (the (partner2 (the (rooms ?t ''r1''))))"
    by code_simp+
  have k4: "roomConnections ?t ''r1'' = Some (the (roomConnections ?t ''r1''))" by code_simp
  have k5: "''r1'' \<notin> matchSent ?t" "pendingCalcs ''r1'' ?t = 0" by code_simp+
  have k6: "AgentRun ''r1'' ''p1'' 1 False \<in> set (tasks ?t)"
    "AgentRun ''r1'' ''p2'' 2 False \<in> set (remove1 (AgentRun ''r1'' ''p1'' 1 False) (tasks ?t))"
    by code_simp+
  have x: "\<not> calcReturns (rooms ?t) ''r1''" by code_simp
  have zt: "matchBroadcasts ''r1'' ?t = 0" by code_simp
  note U = match_result_bounded_by_clearings [of "''r1''" quizRun ?t "the (rooms ?t ''r1'')"
      "the (partner2 (the (rooms ?t ''r1'')))" "the (roomConnections ?t ''r1'')"
      "''p1''" 1 False "''p2''" 2 False]
  have "matchBroadcasts ''r1''
      (run [AgentFinished ''r1'' ''p1'' 1 False, AgentFinished ''r1'' ''p2'' 2 False,
            MatchCalculated ''r1'' 1] ?t) =
      matchBroadcasts ''r1'' ?t + (if calcReturns (rooms ?t) ''r1'' then 1 else 0)"
    using U k1 k2 k3 k4 k5 k6 by blast
  then have n: "matchBroadcasts ''r1'' (run constructorRun init) = 0"
    using zt x by (simp add: constructorRun_def run_append)
  show ?thesis using c z y b o x n by blast
qed

subsection \<open>The completion flags in runs of the server\<close>

lemma answersEvery_iff:
  "answersEvery a = (set (map id_q QUIZ_QUESTIONS) \<subseteq> set (map questionId a))"
proof -
  have "answersEvery a = (\<forall>q \<in> set QUIZ_QUESTIONS. \<exists>x \<in> set a. questionId x = id_q q)"
    by (auto simp: answersEvery_def list_all_iff findAnswer_def find_None_iff)
  also have "\<dots> = (\<forall>q \<in> set QUIZ_QUESTIONS. id_q q \<in> questionId ` set a)"
    by (simp add: image_iff eq_commute)
  also have "\<dots> = (id_q ` set QUIZ_QUESTIONS \<subseteq> questionId ` set a)"
    by blast
  finally show ?thesis by simp
qed

lemma complete_answersEvery:
  assumes "distinct (map questionId a)"
    and "set (map questionId a) \<subseteq> set (map id_q QUIZ_QUESTIONS)"
    and "isComplete a"
  shows "answersEvery a"
proof -
  have "length (map questionId a) \<ge> length QUIZ_QUESTIONS"
    using assms(3) by (simp add: isComplete_def)
  then have "set (map questionId a) = set (map id_q QUIZ_QUESTIONS)"
    using distinct_subset_full [OF assms(1,2)] by simp
  then show ?thesis by (simp add: answersEvery_iff)
qed

lemma noNext_answersEvery: "getNextQuestion a = None \<Longrightarrow> answersEvery a"
  by (auto simp: getNextQuestion_def Let_def find_None_iff answersEvery_iff)

lemma partnerOk_new:
  "partnerOk \<lparr>userId = uid, name = nm, phone = ph, quizAnswers = [], quizComplete = False\<rparr>"
  by (simp add: partnerOk_def)

lemma partnerOk_startQuiz:
  "partnerOk p \<Longrightarrow> getNextQuestion (quizAnswers p) = None \<Longrightarrow>
   partnerOk (p\<lparr>quizComplete := True\<rparr>)"
  by (simp add: partnerOk_def noNext_answersEvery)

lemma partnerOk_submit:
  assumes "partnerOk p" and "submitAnswer (quizAnswers p) q a = (Inr u, answers)"
  shows "partnerOk (if isComplete answers
                    then p\<lparr>quizAnswers := answers, quizComplete := True\<rparr>
                    else p\<lparr>quizAnswers := answers\<rparr>)"
proof -
  have v: "q \<in> set (map id_q QUIZ_QUESTIONS)"
    using assms(2) submitAnswer_invalid [of q "quizAnswers p" a] by auto
  have f: "q \<notin> set (map questionId (quizAnswers p))"
    using assms(2) submitAnswer_duplicate [OF v, of "quizAnswers p" a] by auto
  have e: "answers = quizAnswers p @ [\<lparr>questionId = q, answer = a\<rparr>]"
    using assms(2) submitAnswer_fresh [OF v f, of a] by simp
  have d: "distinct (map questionId answers)"
    and s: "set (map questionId answers) \<subseteq> set (map id_q QUIZ_QUESTIONS)"
    using assms(1) v f e by (auto simp: partnerOk_def list_all_iff)
  have m: "answersEvery (quizAnswers p) \<Longrightarrow> answersEvery answers"
    using e by (auto simp: answersEvery_iff)
  show ?thesis
    using d s m complete_answersEvery [OF d s] assms(1)
    by (auto simp: partnerOk_def list_all_iff)
qed

lemma roomOk_setPartner:
  "roomOk r \<Longrightarrow> partnerOk p \<Longrightarrow> getPartnerSlot r uid = Some sl \<Longrightarrow> roomOk (setPartner r sl p)"
  by (cases sl) (auto simp: roomOk_def setPartner_def split: option.splits)

lemma partnerOk_getPartner:
  "roomOk r \<Longrightarrow> getPartnerSlot r uid = Some sl \<Longrightarrow> partnerOk (the (getPartner r uid))"
  by (cases sl)
     (auto simp: roomOk_def getPartner_def getPartnerSlot_def split: option.splits if_splits)

lemma okStore_upd: "okStore rs \<Longrightarrow> roomOk r \<Longrightarrow> okStore (rs(k \<mapsto> r))"
  by (simp add: okStore_def)

lemma okStore_get: "okStore rs \<Longrightarrow> rs k = Some r \<Longrightarrow> roomOk r"
  by (simp add: okStore_def)

lemma roomOk_chosen [simp]: "roomOk (r\<lparr>chosenAction := a, chosenBy := u\<rparr>) = roomOk r"
  by (simp add: roomOk_def)

lemma roomOk_matchResult [simp]: "roomOk (r\<lparr>matchResult := m\<rparr>) = roomOk r"
  by (simp add: roomOk_def)

lemma ok_createRoom: "okStore rs \<Longrightarrow> okStore (snd (createRoom rs rid now uid nm ph))"
  by (simp add: createRoom_def Let_def okStore_upd roomOk_def partnerOk_new)

lemma ok_joinRoom: "okStore rs \<Longrightarrow> okStore (snd (joinRoom rs rid uid nm ph))"
proof (cases "rs rid")
  case None
  then show "okStore rs \<Longrightarrow> ?thesis" by (simp add: joinRoom_def)
next
  case (Some r)
  assume ok: "okStore rs"
  have "roomOk r" using ok Some by (rule okStore_get)
  then have "roomOk (r\<lparr>partner2 := Some \<lparr>userId = uid, name = nm, phone = ph,
      quizAnswers = [], quizComplete = False\<rparr>\<rparr>)"
    by (simp add: roomOk_def partnerOk_new)
  then show ?thesis using ok Some by (simp add: joinRoom_def Let_def okStore_upd)
qed

lemma ok_startQuiz: "okStore rs \<Longrightarrow> okStore (startQuiz rid uid rs)"
proof (cases "rs rid")
  case None
  then show "okStore rs \<Longrightarrow> ?thesis" by (simp add: startQuiz_def getRoom_def)
next
  case (Some r)
  assume ok: "okStore rs"
  have r: "roomOk r" using ok Some by (rule okStore_get)
  show ?thesis
  proof (cases "getPartnerSlot r uid")
    case None
    then show ?thesis using ok Some by (simp add: startQuiz_def getRoom_def)
  next
    case sl: (Some sl)
    let ?p = "the (getPartner r uid)"
    have p: "partnerOk ?p" using r sl by (rule partnerOk_getPartner)
    show ?thesis
    proof (cases "\<not> quizComplete ?p \<and> getNextQuestion (quizAnswers ?p) = None")
      case True
      then have "roomOk (setPartner r sl (?p\<lparr>quizComplete := True\<rparr>))"
        using roomOk_setPartner [OF r partnerOk_startQuiz [OF p] sl] by simp
      then show ?thesis using ok Some sl True
        by (simp add: startQuiz_def getRoom_def Let_def okStore_upd)
    next
      case False
      then show ?thesis using ok Some sl
        by (auto simp: startQuiz_def getRoom_def Let_def split: option.splits)
    qed
  qed
qed

lemma ok_submitAnswerTool: "okStore rs \<Longrightarrow> okStore (submitAnswerTool rid uid q a rs)"
proof (cases "rs rid")
  case None
  then show "okStore rs \<Longrightarrow> ?thesis" by (simp add: submitAnswerTool_def getRoom_def)
next
  case (Some r)
  assume ok: "okStore rs"
  have r: "roomOk r" using ok Some by (rule okStore_get)
  show ?thesis
  proof (cases "getPartnerSlot r uid")
    case None
    then show ?thesis using ok Some by (simp add: submitAnswerTool_def getRoom_def)
  next
    case sl: (Some sl)
    let ?p = "the (getPartner r uid)"
    have p: "partnerOk ?p" using r sl by (rule partnerOk_getPartner)
    obtain res answers where sub: "submitAnswer (quizAnswers ?p) q a = (res, answers)"
      by (cases "submitAnswer (quizAnswers ?p) q a")
    show ?thesis
    proof (cases res)
      case (Inl e)
      then show ?thesis using ok Some sl sub
        by (simp add: submitAnswerTool_def getRoom_def Let_def)
    next
      case (Inr u)
      let ?p' = "if isComplete answers
                 then ?p\<lparr>quizAnswers := answers, quizComplete := True\<rparr>
                 else ?p\<lparr>quizAnswers := answers\<rparr>"
      have "partnerOk ?p'" using p sub Inr by (intro partnerOk_submit) auto
      then have "roomOk (setPartner r sl ?p')" using r sl by (intro roomOk_setPartner)
      then have "okStore (rs(rid \<mapsto> setPartner r sl ?p'))" using ok by (intro okStore_upd)
      then show ?thesis using ok Some sl sub Inr
        by (simp add: submitAnswerTool_def getRoom_def Let_def)
    qed
  qed
qed

lemma ok_calculateMatch: "okStore rs \<Longrightarrow> okStore (snd (calculateMatch rs rid))"
proof (cases "rs rid")
  case None
  then show "okStore rs \<Longrightarrow> ?thesis" by (simp add: calculateMatch_def getRoom_def)
next
  case (Some r)
  assume ok: "okStore rs"
  have r: "roomOk r" using ok Some by (rule okStore_get)
  show ?thesis using ok Some r
    by (simp add: calculateMatch_def getRoom_def Let_def okStore_upd
        split: option.splits sum.splits)
qed

lemma ok_runTool: "okStore rs \<Longrightarrow> okStore (runTool rid uid c rs)"
  by (cases c) (simp_all add: ok_startQuiz ok_submitAnswerTool ok_calculateMatch)

lemma rooms_processMessage:
  "rooms (processMessage rid uid w msg s) = rooms s \<or>
   (\<exists>r a. rooms s rid = Some r \<and>
      rooms (processMessage rid uid w msg s) =
        (rooms s)(rid \<mapsto> r\<lparr>chosenAction := Some a, chosenBy := Some uid\<rparr>))"
  by (auto simp: processMessage_def getRoom_def Let_def
      dest!: rooms_connectAndInjectTools_begin split: option.splits)

lemma ok_processMessage:
  assumes "okStore (rooms s)"
  shows "okStore (rooms (processMessage rid uid w msg s))"
proof -
  from rooms_processMessage [of rid uid w msg s] show ?thesis
  proof
    assume "rooms (processMessage rid uid w msg s) = rooms s"
    then show ?thesis using assms by simp
  next
    assume "\<exists>r a. rooms s rid = Some r \<and>
      rooms (processMessage rid uid w msg s) =
        (rooms s)(rid \<mapsto> r\<lparr>chosenAction := Some a, chosenBy := Some uid\<rparr>)"
    then obtain r a where r: "rooms s rid = Some r"
      and e: "rooms (processMessage rid uid w msg s) =
        (rooms s)(rid \<mapsto> r\<lparr>chosenAction := Some a, chosenBy := Some uid\<rparr>)"
      by blast
    have "roomOk r" using assms r by (rule okStore_get)
    then have "roomOk (r\<lparr>chosenAction := Some a, chosenBy := Some uid\<rparr>)" by simp
    then show ?thesis unfolding e using assms by (intro okStore_upd)
  qed
qed

lemma ok_notify:
  assumes "okStore (rooms s)"
  shows "okStore (rooms (notifyAuthCompleteForRoom rid s))"
proof -
  let ?s1 = "broadcastToRoom rid SwiggyAuthComplete s"
  show ?thesis
  proof (cases "pendingActions ?s1 rid")
    case None
    then show ?thesis using assms by (simp add: notifyAuthCompleteForRoom_def Let_def)
  next
    case (Some pa)
    obtain uid msg w where pa: "pa = (uid, msg, w)" by (cases pa)
    let ?s2 = "?s1\<lparr>pendingActions := (pendingActions ?s1)(rid := None)\<rparr>"
    have "okStore (rooms ?s2)" using assms by simp
    then have P: "okStore (rooms (processMessage rid uid w msg ?s2))"
      by (rule ok_processMessage)
    show ?thesis using Some pa assms P
      by (auto simp: notifyAuthCompleteForRoom_def Let_def
          dest!: rooms_connectAndInjectTools_begin split: option.splits)
  qed
qed

lemma ok_step:
  assumes "okStore (rooms s)"
  shows "okStore (rooms (step e s))"
proof (cases e)
  case (CreateRoom rid now uid nm ph)
  then show ?thesis using assms by (simp add: ok_createRoom)
next
  case (JoinRoom rid uid nm ph)
  then show ?thesis using assms by (simp add: ok_joinRoom)
next
  case (Message rid uid w msg)
  then show ?thesis using assms by (simp add: ok_processMessage)
next
  case (AuthCallback rid res)
  then show ?thesis using assms by (cases res) (simp_all add: ok_notify)
next
  case (ConnectReturned rid a uid w msg k res)
  then show ?thesis using assms by (cases k) (simp_all add: Let_def ok_processMessage)
next
  case (ToolCall rid uid c)
  then show ?thesis using assms by (simp add: ok_runTool)
next
  case (MatchCalculated rid w)
  then show ?thesis using assms by (simp add: rooms_afterCalc ok_calculateMatch)
qed (use assms in simp_all)

lemma ok_run: "okStore (rooms s) \<Longrightarrow> okStore (rooms (run es s))"
  by (induction es arbitrary: s) (simp_all add: ok_step)

text \<open>
  In every state the server reaches, a partner who is marked complete has answered every
  fixed question; and when both partners of a room are marked complete and no value of
  the first partner names an inherited property, \<open>calculate_match\<close> returns a result
  with a compatibility between 20 and 100 and stores it on the room.
\<close>

lemma complete_flags_in_run:
  assumes "rooms (run es init) rid = Some r" and "partner2 r = Some p2"
    and "quizComplete (partner1 r)" and "quizComplete p2"
  shows "answersEvery (quizAnswers (partner1 r)) \<and> answersEvery (quizAnswers p2)"
proof -
  have "okStore (rooms init)" by (simp add: init_def okStore_def)
  then have "okStore (rooms (run es init))" by (rule ok_run)
  then have "roomOk r" using assms(1) by (rule okStore_get)
  then show ?thesis using assms(2,3,4) by (auto simp: roomOk_def partnerOk_def)
qed

lemma calculateMatch_in_run:
  assumes "rooms (run es init) rid = Some r" and "partner2 r = Some p2"
    and "quizComplete (partner1 r)" and "quizComplete p2"
    and "plainAnswers (quizAnswers (partner1 r))"
  shows "\<exists>m. calculateMatch (rooms (run es init)) rid =
               (Returned m, (rooms (run es init))(rid \<mapsto> r\<lparr>matchResult := Some m\<rparr>)) \<and>
             20 \<le> compatibility m \<and> compatibility m \<le> 100"
proof -
  have e: "answersEvery (quizAnswers (partner1 r))" "answersEvery (quizAnswers p2)"
    using complete_flags_in_run [OF assms(1-4)] by simp_all
  show ?thesis using assms(1-4) e assms(5) by (rule calculateMatch_plain)
qed

text \<open>
  Claim C10 fails on the code. In \<open>constructorStart\<close> both partners have joined the
  room and each has answered all six fixed questions through \<open>submit_answer\<close>, the
  first partner the cuisine question with the free text \<open>constructor\<close>; both are
  marked complete. \<open>calculate_match\<close> throws instead of returning a result, and the
  room's \<open>matchResult\<close> stays null. In \<open>constructorRun\<close> the server starts the
  calculation after both runs of the agent; it ends in the \<open>catch\<close>: the first
  partner is sent the error, no \<open>match_result\<close> is broadcast, and the room stays in
  \<open>matchSent\<close>, so that the calculation is not started again.
\<close>

theorem complete_room_without_match:
  "map_option
     (\<lambda>r. (quizComplete (partner1 r), answersEvery (quizAnswers (partner1 r)),
           map_option (\<lambda>p. (quizComplete p, answersEvery (quizAnswers p))) (partner2 r)))
     (rooms (run constructorStart init) ''r1'') = Some (True, True, Some (True, True)) \<and>
   fst (calculateMatch (rooms (run constructorStart init)) ''r1'') =
     Threw (TypeError ''compatibles.includes is not a function'') \<and>
   map_option matchResult
     (snd (calculateMatch (rooms (run constructorStart init)) ''r1'') ''r1'') = Some None \<and>
   map_option matchResult (rooms (run constructorRun init) ''r1'') = Some None \<and>
   last (sent (run constructorRun init)) =
     SendToClient 1 (ErrorMsg ''Something went wrong. Please try again.'') \<and>
   matchBroadcasts ''r1'' (run constructorRun init) = 0 \<and>
   ''r1'' \<in> matchSent (run constructorRun init)"
  by code_simp

end
